theory Spec2Isabelle
  imports Complex_Main "HOL-Library.Monad_Syntax"
begin

section \<open>The validation report (src/services/schemaValidationService.ts, lines 1-20)\<close>

datatype severity = Error | Warning | Info

record ValidationError =
  type :: severity
  message :: string
  path :: "string option"
  suggestion :: "string option"

text \<open>The three arrays \<open>errors\<close>, \<open>warnings\<close>, \<open>info\<close> that every validator appends to.\<close>

record findings =
  errors :: "ValidationError list"
  warnings :: "ValidationError list"
  info :: "ValidationError list"

record ValidationResult = findings +
  isValid :: bool
  score :: int

text \<open>The argument \<open>{ type: string; schema: string }\<close> of \<open>validateSchema\<close>.\<close>

record schemaObj =
  s_type :: string
  s_schema :: string

record SEOReport = findings +
  recommendations :: "string list"

section \<open>JavaScript values and the operations the validator applies to them\<close>

text \<open>
  The value of \<open>JSON.parse\<close> and of every property read. \<open>JUndefined\<close> is what a read of
  an absent property gives. An object is the list of its own properties in the order of
  \<open>Object.keys\<close>. Numbers are the rationals (every finite double is one); a character stands
  for one UTF-16 code unit below 256.
\<close>

datatype jsvalue =
    JUndefined
  | JNull
  | JBool bool
  | JNum rat
  | JStr string
  | JArr "jsvalue list"
  | JObj "(string \<times> jsvalue) list"

text \<open>
  What the validator takes from the JavaScript runtime and not from this repository:
  \<open>JSON.parse\<close> (\<open>None\<close>: it throws SyntaxError), the conversion of a number to a string
  and of a string to a number (\<open>None\<close>: NaN).
\<close>

record js_runtime =
  JSON_parse :: "string \<Rightarrow> jsvalue option"
  Number_toString :: "rat \<Rightarrow> string"
  StringToNumber :: "string \<Rightarrow> rat option"

text \<open>
  An expression that can throw TypeError has an option type: \<open>None\<close> is the throw.
\<close>

fun truthy :: "jsvalue \<Rightarrow> bool" where
  "truthy JUndefined = False"
| "truthy JNull = False"
| "truthy (JBool b) = b"
| "truthy (JNum r) = (r \<noteq> 0)"
| "truthy (JStr s) = (s \<noteq> [])"
| "truthy (JArr xs) = True"
| "truthy (JObj kvs) = True"

text \<open>The decimal digits of an array index, as a property key and a template literal write it.\<close>

fun show_nat :: "nat \<Rightarrow> string" where
  "show_nat n =
     (if n < 10 then [''0123456789'' ! n]
      else show_nat (n div 10) @ [''0123456789'' ! (n mod 10)])"

declare show_nat.simps [simp del]

definition indexOf :: "string \<Rightarrow> nat \<Rightarrow> nat option" where
  "indexOf k n = List.find (\<lambda>i. show_nat i = k) [0..<n]"

text \<open>
  \<open>v[k]\<close> and \<open>v.k\<close>. Reading a property of \<open>null\<close> or \<open>undefined\<close> throws; a string and an
  array have \<open>length\<close> and their indices; an object has its own properties. None of the
  names the source reads is inherited from a prototype, apart from the methods \<open>trim\<close> and
  \<open>toLowerCase\<close> of a string, which are modelled where they are called.
\<close>

fun getProp :: "jsvalue \<Rightarrow> string \<Rightarrow> jsvalue option" where
  "getProp JUndefined k = None"
| "getProp JNull k = None"
| "getProp (JObj kvs) k = Some (case map_of kvs k of None \<Rightarrow> JUndefined | Some v \<Rightarrow> v)"
| "getProp (JStr s) k =
     Some (if k = ''length'' then JNum (of_nat (length s))
           else (case indexOf k (length s) of None \<Rightarrow> JUndefined | Some i \<Rightarrow> JStr [s ! i]))"
| "getProp (JArr xs) k =
     Some (if k = ''length'' then JNum (of_nat (length xs))
           else (case indexOf k (length xs) of None \<Rightarrow> JUndefined | Some i \<Rightarrow> xs ! i))"
| "getProp (JBool b) k = Some JUndefined"
| "getProp (JNum r) k = Some JUndefined"

text \<open>\<open>Object.keys(v)\<close>: it throws on \<open>null\<close> and \<open>undefined\<close>.\<close>

fun Object_keys :: "jsvalue \<Rightarrow> string list option" where
  "Object_keys JUndefined = None"
| "Object_keys JNull = None"
| "Object_keys (JObj kvs) = Some (map fst kvs)"
| "Object_keys (JStr s) = Some (map show_nat [0..<length s])"
| "Object_keys (JArr xs) = Some (map show_nat [0..<length xs])"
| "Object_keys (JBool b) = Some []"
| "Object_keys (JNum r) = Some []"

fun isString :: "jsvalue \<Rightarrow> bool" where
  "isString (JStr s) = True"
| "isString v = False"

fun isArray :: "jsvalue \<Rightarrow> bool" where
  "isArray (JArr xs) = True"
| "isArray v = False"

fun elements :: "jsvalue \<Rightarrow> jsvalue list" where
  "elements (JArr xs) = xs"
| "elements v = []"

text \<open>
  \<open>a === b\<close>. Two objects or arrays read from different places of a parsed document are
  never the same reference.
\<close>

fun strict_eq :: "jsvalue \<Rightarrow> jsvalue \<Rightarrow> bool" where
  "strict_eq (JArr xs) b = False"
| "strict_eq (JObj kvs) b = False"
| "strict_eq a b = (a = b)"

text \<open>
  ToString, as a template literal, \<open>String(v)\<close>, a property key and \<open>RegExp.test\<close> apply it.
  An object read from JSON whose own key \<open>toString\<close> hides \<open>Object.prototype.toString\<close> has
  no callable conversion, and the conversion throws TypeError; \<open>Array.prototype.join\<close>
  writes \<open>null\<close> and \<open>undefined\<close> as the empty string.
\<close>

fun js_toString :: "js_runtime \<Rightarrow> jsvalue \<Rightarrow> string option"
  and js_join :: "js_runtime \<Rightarrow> jsvalue list \<Rightarrow> string option" where
  "js_toString rt JUndefined = Some ''undefined''"
| "js_toString rt JNull = Some ''null''"
| "js_toString rt (JBool b) = Some (if b then ''true'' else ''false'')"
| "js_toString rt (JNum r) = Some (Number_toString rt r)"
| "js_toString rt (JStr s) = Some s"
| "js_toString rt (JArr xs) = js_join rt xs"
| "js_toString rt (JObj kvs) =
     (if ''toString'' \<in> set (map fst kvs) then None else Some ''[object Object]'')"
| "js_join rt [] = Some []"
| "js_join rt (x # xs) =
     (case (if x = JNull \<or> x = JUndefined then Some [] else js_toString rt x) of
        None \<Rightarrow> None
      | Some a \<Rightarrow>
         (if xs = [] then Some a
          else (case js_join rt xs of None \<Rightarrow> None | Some b \<Rightarrow> Some (a @ '','' @ b))))"

text \<open>ToNumber after ToPrimitive: the outer \<open>None\<close> is a TypeError, the inner one NaN.\<close>

fun js_toNumber :: "js_runtime \<Rightarrow> jsvalue \<Rightarrow> rat option option" where
  "js_toNumber rt JUndefined = Some None"
| "js_toNumber rt JNull = Some (Some 0)"
| "js_toNumber rt (JBool b) = Some (Some (if b then 1 else 0))"
| "js_toNumber rt (JNum r) = Some (Some r)"
| "js_toNumber rt (JStr s) = Some (StringToNumber rt s)"
| "js_toNumber rt v = map_option (StringToNumber rt) (js_toString rt v)"

text \<open>\<open>v < n\<close> and \<open>v > n\<close> for a number \<open>n\<close>: false when \<open>v\<close> converts to NaN.\<close>

definition js_lt :: "js_runtime \<Rightarrow> jsvalue \<Rightarrow> rat \<Rightarrow> bool option" where
  "js_lt rt v n = map_option (\<lambda>x. case x of None \<Rightarrow> False | Some r \<Rightarrow> r < n) (js_toNumber rt v)"

definition js_gt :: "js_runtime \<Rightarrow> jsvalue \<Rightarrow> rat \<Rightarrow> bool option" where
  "js_gt rt v n = map_option (\<lambda>x. case x of None \<Rightarrow> False | Some r \<Rightarrow> r > n) (js_toNumber rt v)"

section \<open>Appending findings; a throw leaves the arrays as they are\<close>

datatype outcome = Completed findings | Threw findings

type_synonym check = "findings \<Rightarrow> outcome"

fun findingsOf :: "outcome \<Rightarrow> findings" where
  "findingsOf (Completed fs) = fs"
| "findingsOf (Threw fs) = fs"

definition pushError :: "ValidationError \<Rightarrow> check" where
  "pushError e fs = Completed (fs\<lparr>errors := errors fs @ [e]\<rparr>)"

definition pushWarning :: "ValidationError \<Rightarrow> check" where
  "pushWarning e fs = Completed (fs\<lparr>warnings := warnings fs @ [e]\<rparr>)"

definition pushInfo :: "ValidationError \<Rightarrow> check" where
  "pushInfo e fs = Completed (fs\<lparr>info := info fs @ [e]\<rparr>)"

definition skip :: check where
  "skip fs = Completed fs"

text \<open>Statements in sequence: the first throw ends the sequence.\<close>

fun steps :: "check list \<Rightarrow> check" where
  "steps [] fs = Completed fs"
| "steps (c # cs) fs = (case c fs of Completed fs' \<Rightarrow> steps cs fs' | Threw fs' \<Rightarrow> Threw fs')"

text \<open>\<open>if (c) { body }\<close> and \<open>if (c) { a } else { b }\<close> where evaluating \<open>c\<close> can throw.\<close>

definition ifThen :: "bool option \<Rightarrow> check \<Rightarrow> check" where
  "ifThen c body fs =
     (case c of None \<Rightarrow> Threw fs | Some b \<Rightarrow> if b then body fs else Completed fs)"

definition ifThenElse :: "bool option \<Rightarrow> check \<Rightarrow> check \<Rightarrow> check" where
  "ifThenElse c a b fs = (case c of None \<Rightarrow> Threw fs | Some t \<Rightarrow> if t then a fs else b fs)"

text \<open>A statement that first evaluates an expression that can throw.\<close>

definition bindThen :: "'a option \<Rightarrow> ('a \<Rightarrow> check) \<Rightarrow> check" where
  "bindThen e body fs = (case e of None \<Rightarrow> Threw fs | Some v \<Rightarrow> body v fs)"

text \<open>\<open>xs.forEach((x, index) => ...)\<close>, the index counted from \<open>i\<close>.\<close>

fun forEachFrom :: "nat \<Rightarrow> ('a \<Rightarrow> nat \<Rightarrow> check) \<Rightarrow> 'a list \<Rightarrow> check" where
  "forEachFrom i f [] fs = Completed fs"
| "forEachFrom i f (x # xs) fs =
     (case f x i fs of Completed fs' \<Rightarrow> forEachFrom (Suc i) f xs fs' | Threw fs' \<Rightarrow> Threw fs')"

definition forEach :: "('a \<Rightarrow> nat \<Rightarrow> check) \<Rightarrow> 'a list \<Rightarrow> check" where
  "forEach f xs = forEachFrom 0 f xs"

text \<open>\<open>a && b\<close> and \<open>a || b\<close> as conditions: \<open>b\<close> is evaluated only when \<open>a\<close> does not decide.\<close>

definition andAlso :: "bool option \<Rightarrow> bool option \<Rightarrow> bool option" where
  "andAlso a b = (case a of None \<Rightarrow> None | Some t \<Rightarrow> if t then b else Some False)"

definition orElse :: "bool option \<Rightarrow> bool option \<Rightarrow> bool option" where
  "orElse a b = (case a of None \<Rightarrow> None | Some t \<Rightarrow> if t then Some True else b)"

definition has :: "jsvalue \<Rightarrow> string \<Rightarrow> bool option" where
  "has v k = map_option truthy (getProp v k)"

definition lacks :: "jsvalue \<Rightarrow> string \<Rightarrow> bool option" where
  "lacks v k = map_option (\<lambda>x. \<not> truthy x) (getProp v k)"

section \<open>String methods the content checks call\<close>

text \<open>The white space of \<open>trim\<close> and of \<open>\s\<close> among the code units below 256.\<close>

definition isWhiteSpace :: "char \<Rightarrow> bool" where
  "isWhiteSpace c = ((of_char c :: nat) \<in> {9, 10, 11, 12, 13, 32, 160})"

text \<open>\<open>s.trim() === ''\<close>\<close>

definition trimsToEmpty :: "string \<Rightarrow> bool" where
  "trimsToEmpty s = list_all isWhiteSpace s"

definition lowerChar :: "char \<Rightarrow> char" where
  "lowerChar c =
     (let n = (of_char c :: nat)
      in if (65 \<le> n \<and> n \<le> 90) \<or> (192 \<le> n \<and> n \<le> 222 \<and> n \<noteq> 215)
         then char_of (n + 32) else c)"

text \<open>
  \<open>v.toLowerCase()\<close>: only a string has the method; on any other value that is not
  \<open>null\<close> or \<open>undefined\<close> the call throws TypeError (not a function), and on those two
  the property read throws.
\<close>

fun toLowerCase :: "jsvalue \<Rightarrow> string option" where
  "toLowerCase (JStr s) = Some (map lowerChar s)"
| "toLowerCase v = None"

text \<open>\<open>s.includes(t)\<close>\<close>

fun js_includes :: "string \<Rightarrow> string \<Rightarrow> bool" where
  "js_includes [] t = (t = [])"
| "js_includes (c # cs) t = (take (length t) (c # cs) = t \<or> js_includes cs t)"

text \<open>\<open>s.split(/\s+/)\<close>\<close>

function split_ws :: "string \<Rightarrow> string list" where
  "split_ws s =
     (let w = takeWhile (\<lambda>c. \<not> isWhiteSpace c) s;
          r = dropWhile (\<lambda>c. \<not> isWhiteSpace c) s
      in if r = [] then [w] else w # split_ws (dropWhile isWhiteSpace (tl r)))"
  by pat_completeness auto
termination
proof (relation "measure length")
  show "wf (measure length)" by simp
next
  fix s :: string and w r
  assume r: "r = dropWhile (\<lambda>c. \<not> isWhiteSpace c) s" and ne: "r \<noteq> []"
  have "length (dropWhile isWhiteSpace (tl r)) \<le> length (tl r)"
    by (rule length_dropWhile_le)
  also have "\<dots> < length r" using ne by (cases r) simp_all
  also have "\<dots> \<le> length s" unfolding r by (rule length_dropWhile_le)
  finally show "(dropWhile isWhiteSpace (tl r), s) \<in> measure length" by simp
qed

declare split_ws.simps [simp del]

text \<open>
  \<open>VALIDATION_PATTERNS\<close> (lines 70-87): each regular expression as the predicate on strings
  that \<open>test\<close> computes. None has the flag \<open>g\<close>, so \<open>test\<close> keeps no state; \<open>$\<close> is the end
  of the string and \<open>.\<close> is any character but a line terminator.
\<close>

datatype pattern =
  url | email | date | phone | imageUrl | schemaContext | postalCode | price | currency

definition isDigit :: "char \<Rightarrow> bool" where
  "isDigit c = (c \<in> set ''0123456789'')"

definition isLineTerminator :: "char \<Rightarrow> bool" where
  "isLineTerminator c = ((of_char c :: nat) \<in> {10, 13})"

definition isAsciiLetter :: "char \<Rightarrow> bool" where
  "isAsciiLetter c =
     (let n = (of_char c :: nat) in (65 \<le> n \<and> n \<le> 90) \<or> (97 \<le> n \<and> n \<le> 122))"

definition isAsciiUpper :: "char \<Rightarrow> bool" where
  "isAsciiUpper c = (let n = (of_char c :: nat) in 65 \<le> n \<and> n \<le> 90)"

text \<open>A string of a fixed shape: \<open>d\<close> in the shape stands for a digit, any other character for itself.\<close>

fun hasShape :: "string \<Rightarrow> string \<Rightarrow> bool" where
  "hasShape [] [] = True"
| "hasShape (p # ps) (c # cs) =
     ((if p = CHR ''d'' then isDigit c else c = p) \<and> hasShape ps cs)"
| "hasShape ps cs = False"

text \<open>\<open>/^https?:\/\/.+/\<close>\<close>

definition matchUrl :: "string \<Rightarrow> bool" where
  "matchUrl s =
     (let rest = (if take 8 s = ''https://'' then drop 8 s
                  else if take 7 s = ''http://'' then drop 7 s else [])
      in case rest of [] \<Rightarrow> False | c # cs \<Rightarrow> \<not> isLineTerminator c)"

text \<open>\<open>/^[^\s@]+@[^\s@]+\.[^\s@]+$/\<close>\<close>

definition matchEmail :: "string \<Rightarrow> bool" where
  "matchEmail s =
     (let ok = (\<lambda>c. \<not> isWhiteSpace c \<and> c \<noteq> CHR ''@'');
          l = takeWhile (\<lambda>c. c \<noteq> CHR ''@'') s;
          r = drop (Suc (length l)) s
      in l \<noteq> [] \<and> length l < length s \<and> list_all ok l \<and> list_all ok r \<and>
         (\<exists>i \<in> set [1..<length r - 1]. r ! i = CHR ''.''))"

text \<open>\<open>/^\d{4}-\d{2}-\d{2}(T\d{2}:\d{2}:\d{2}(\.\d{3})?Z?)?$/\<close>\<close>

definition matchDate :: "string \<Rightarrow> bool" where
  "matchDate s =
     (\<exists>shape \<in> set [''dddd-dd-dd'', ''dddd-dd-ddTdd:dd:dd'', ''dddd-dd-ddTdd:dd:ddZ'',
                     ''dddd-dd-ddTdd:dd:dd.ddd'', ''dddd-dd-ddTdd:dd:dd.dddZ''].
        hasShape shape s)"

text \<open>\<open>/^[\+]?[1-9][\d]{0,15}$/\<close>\<close>

definition matchPhone :: "string \<Rightarrow> bool" where
  "matchPhone s =
     (let t = (case s of [] \<Rightarrow> [] | c # cs \<Rightarrow> if c = CHR ''+'' then cs else s)
      in case t of
           [] \<Rightarrow> False
         | c # cs \<Rightarrow> c \<in> set ''123456789'' \<and> list_all isDigit cs \<and> length cs \<le> 15)"

text \<open>\<open>/\.(jpg|jpeg|png|gif|webp|svg)(\?.*)?$/i\<close>\<close>

definition matchImageUrl :: "string \<Rightarrow> bool" where
  "matchImageUrl s =
     (\<exists>i \<in> set [0..<length s]. s ! i = CHR ''.'' \<and>
        (\<exists>ext \<in> set [''jpg'', ''jpeg'', ''png'', ''gif'', ''webp'', ''svg''].
           (let r = drop (Suc i) s; t = drop (length ext) r
            in map lowerChar (take (length ext) r) = ext \<and>
               (case t of [] \<Rightarrow> True
                | c # cs \<Rightarrow> c = CHR ''?'' \<and> list_all (\<lambda>x. \<not> isLineTerminator x) cs))))"

text \<open>\<open>/^https?:\/\/schema\.org\/?$/\<close>\<close>

definition matchSchemaContext :: "string \<Rightarrow> bool" where
  "matchSchemaContext s =
     (s \<in> set [''http://schema.org'', ''https://schema.org'',
                ''http://schema.org/'', ''https://schema.org/''])"

text \<open>\<open>/^[A-Z0-9\s\-]{3,10}$/i\<close>\<close>

definition matchPostalCode :: "string \<Rightarrow> bool" where
  "matchPostalCode s =
     (3 \<le> length s \<and> length s \<le> 10 \<and>
      list_all (\<lambda>c. isAsciiLetter c \<or> isDigit c \<or> isWhiteSpace c \<or> c = CHR ''-'') s)"

text \<open>\<open>/^\d+(\.\d{1,2})?$/\<close>\<close>

definition matchPrice :: "string \<Rightarrow> bool" where
  "matchPrice s =
     (let a = takeWhile isDigit s; r = dropWhile isDigit s
      in a \<noteq> [] \<and>
         (case r of [] \<Rightarrow> True
          | c # cs \<Rightarrow> c = CHR ''.'' \<and> list_all isDigit cs \<and> 1 \<le> length cs \<and> length cs \<le> 2))"

text \<open>\<open>/^[A-Z]{3}$/\<close>\<close>

definition matchCurrency :: "string \<Rightarrow> bool" where
  "matchCurrency s = (length s = 3 \<and> list_all isAsciiUpper s)"

fun VALIDATION_PATTERNS :: "pattern \<Rightarrow> string \<Rightarrow> bool" where
  "VALIDATION_PATTERNS url = matchUrl"
| "VALIDATION_PATTERNS email = matchEmail"
| "VALIDATION_PATTERNS date = matchDate"
| "VALIDATION_PATTERNS phone = matchPhone"
| "VALIDATION_PATTERNS imageUrl = matchImageUrl"
| "VALIDATION_PATTERNS schemaContext = matchSchemaContext"
| "VALIDATION_PATTERNS postalCode = matchPostalCode"
| "VALIDATION_PATTERNS price = matchPrice"
| "VALIDATION_PATTERNS currency = matchCurrency"

text \<open>\<open>VALIDATION_PATTERNS.p.test(v)\<close>: the argument is converted to a string first.\<close>

definition test :: "js_runtime \<Rightarrow> pattern \<Rightarrow> jsvalue \<Rightarrow> bool option" where
  "test rt p v = map_option (VALIDATION_PATTERNS p) (js_toString rt v)"

definition fails :: "js_runtime \<Rightarrow> pattern \<Rightarrow> jsvalue option \<Rightarrow> bool option" where
  "fails rt p e = map_option Not (e \<bind> test rt p)"

definition finding ::
  "severity \<Rightarrow> string \<Rightarrow> string option \<Rightarrow> string option \<Rightarrow> ValidationError" where
  "finding t m p s = \<lparr>type = t, message = m, path = p, suggestion = s\<rparr>"

section \<open>The requirement table (lines 22-68)\<close>

record requirement =
  required :: "string list"
  recommended :: "string list"

definition SCHEMA_REQUIREMENTS :: "(string \<times> requirement) list" where
  "SCHEMA_REQUIREMENTS =
    [(''Article'',
        \<lparr>required = [''@context'', ''@type'', ''headline''],
         recommended = [''author'', ''datePublished'', ''dateModified'', ''publisher'',
                        ''description'', ''image'']\<rparr>),
     (''Product'',
        \<lparr>required = [''@context'', ''@type'', ''name''],
         recommended = [''description'', ''image'', ''brand'', ''offers'', ''aggregateRating'',
                        ''review'']\<rparr>),
     (''Organization'',
        \<lparr>required = [''@context'', ''@type'', ''name''],
         recommended = [''url'', ''logo'', ''description'', ''address'', ''contactPoint'']\<rparr>),
     (''Person'',
        \<lparr>required = [''@context'', ''@type'', ''name''],
         recommended = [''url'', ''image'', ''description'', ''jobTitle'', ''worksFor'']\<rparr>),
     (''Event'',
        \<lparr>required = [''@context'', ''@type'', ''name'', ''startDate''],
         recommended = [''endDate'', ''location'', ''description'', ''organizer'', ''offers'']\<rparr>),
     (''BreadcrumbList'',
        \<lparr>required = [''@context'', ''@type'', ''itemListElement''],
         recommended = [''numberOfItems'']\<rparr>),
     (''FAQPage'',
        \<lparr>required = [''@context'', ''@type'', ''mainEntity''],
         recommended = [''name'', ''description'']\<rparr>),
     (''HowTo'',
        \<lparr>required = [''@context'', ''@type'', ''name'', ''step''],
         recommended = [''description'', ''image'', ''totalTime'', ''supply'', ''tool'']\<rparr>),
     (''Review'',
        \<lparr>required = [''@context'', ''@type'', ''reviewRating'', ''author''],
         recommended = [''itemReviewed'', ''reviewBody'', ''datePublished'']\<rparr>),
     (''LocalBusiness'',
        \<lparr>required = [''@context'', ''@type'', ''name'', ''address''],
         recommended = [''telephone'', ''url'', ''openingHours'', ''priceRange'']\<rparr>),
     (''WebSite'',
        \<lparr>required = [''@context'', ''@type'', ''name'', ''url''],
         recommended = [''description'', ''potentialAction'']\<rparr>)]"

text \<open>
  \<open>SCHEMA_REQUIREMENTS\<close> is an object literal, so \<open>SCHEMA_REQUIREMENTS[k]\<close> also finds what
  it inherits from \<open>Object.prototype\<close>: a function or an object, truthy, with no property
  \<open>required\<close>.
\<close>

definition Object_prototype_names :: "string list" where
  "Object_prototype_names =
    [''constructor'', ''__defineGetter__'', ''__defineSetter__'', ''hasOwnProperty'',
     ''__lookupGetter__'', ''__lookupSetter__'', ''isPrototypeOf'', ''propertyIsEnumerable'',
     ''toString'', ''valueOf'', ''__proto__'', ''toLocaleString'']"

datatype table_value = Absent | Inherited | Entry requirement

definition requirementsOf :: "string \<Rightarrow> table_value" where
  "requirementsOf k =
     (case map_of SCHEMA_REQUIREMENTS k of
        Some e \<Rightarrow> Entry e
      | None \<Rightarrow> if k \<in> set Object_prototype_names then Inherited else Absent)"

section \<open>Per-type validators (lines 277-487)\<close>

definition isoDateSuggestion :: string where
  \<open>isoDateSuggestion = ''Use strict ISO 8601 format: "YYYY-MM-DD" (e.g., "2024-01-15") or "YYYY-MM-DDTHH:mm:ssZ" (e.g., "2024-01-15T14:30:00Z"). Do not use formats like "01/15/2024" or "January 15, 2024"''\<close>

definition headlineTooLong :: ValidationError where
  "headlineTooLong =
     finding Warning ''Headline is too long'' None
       (Some ''Keep headlines under 110 characters for better SEO'')"

definition validateArticle :: "js_runtime \<Rightarrow> jsvalue \<Rightarrow> check" where
  \<open>validateArticle rt schema = steps
    [ifThen (andAlso (has schema ''headline'')
               (getProp schema ''headline'' \<bind> (\<lambda>h. getProp h ''length'')
                  \<bind> (\<lambda>l. js_gt rt l 110)))
       (pushWarning headlineTooLong),
     ifThen (has schema ''author'')
       (ifThen (map_option isString (getProp schema ''author''))
          (pushWarning (finding Warning ''Author should be an object with name property'' None
             (Some ''Use {"@type": "Person", "name": "Author Name"} format'')))),
     ifThen (andAlso (has schema ''datePublished'')
               (fails rt date (getProp schema ''datePublished'')))
       (pushError (finding Error ''Invalid datePublished format'' None
          (Some isoDateSuggestion))),
     ifThen (andAlso (has schema ''dateModified'')
               (fails rt date (getProp schema ''dateModified'')))
       (pushError (finding Error ''Invalid dateModified format'' None
          (Some isoDateSuggestion)))]\<close>

definition validateProduct :: "js_runtime \<Rightarrow> jsvalue \<Rightarrow> check" where
  \<open>validateProduct rt schema = steps
    [ifThen (has schema ''offers'')
       (ifThen (getProp schema ''offers'' \<bind> (\<lambda>offers. lacks offers ''price''))
          (pushWarning (finding Warning ''Product offers should include price'' None
             (Some ''Add "price" property to offers for better rich snippets'')))),
     ifThen (andAlso (has schema ''image'') (map_option isString (getProp schema ''image'')))
       (ifThen (fails rt url (getProp schema ''image''))
          (pushError (finding Error ''Invalid image URL format'' None
             (Some ''Use a valid HTTP/HTTPS URL for the image''))))]\<close>

definition validateOrganization :: "js_runtime \<Rightarrow> jsvalue \<Rightarrow> check" where
  \<open>validateOrganization rt schema = steps
    [ifThen (andAlso (has schema ''logo'') (map_option isString (getProp schema ''logo'')))
       (ifThen (fails rt url (getProp schema ''logo''))
          (pushError (finding Error ''Invalid logo URL format'' None
             (Some ''Use a valid HTTP/HTTPS URL for the logo'')))),
     ifThen (has schema ''contactPoint'')
       (ifThen (getProp schema ''contactPoint'' \<bind> (\<lambda>contactPoint.
                  andAlso (has contactPoint ''telephone'')
                    (fails rt phone (getProp contactPoint ''telephone''))))
          (pushWarning (finding Warning ''Invalid phone number format'' None
             (Some ''Use international format: +1234567890''))))]\<close>

definition validateEvent :: "js_runtime \<Rightarrow> jsvalue \<Rightarrow> check" where
  \<open>validateEvent rt schema = steps
    [ifThen (andAlso (has schema ''startDate'') (fails rt date (getProp schema ''startDate'')))
       (pushError (finding Error ''Invalid startDate format'' None (Some isoDateSuggestion))),
     ifThen (andAlso (has schema ''endDate'') (fails rt date (getProp schema ''endDate'')))
       (pushError (finding Error ''Invalid endDate format'' None (Some isoDateSuggestion)))]\<close>

definition validateBreadcrumbList :: "js_runtime \<Rightarrow> jsvalue \<Rightarrow> check" where
  \<open>validateBreadcrumbList rt schema =
     ifThen (andAlso (has schema ''itemListElement'')
               (map_option isArray (getProp schema ''itemListElement'')))
       (bindThen (getProp schema ''itemListElement'') (\<lambda>itemListElement.
          forEach (\<lambda>item index.
             ifThen (lacks item ''name'')
               (pushError (finding Error
                  (''Breadcrumb item '' @ show_nat (index + 1) @ '' missing name'')
                  (Some (''itemListElement['' @ show_nat index @ ''].name''))
                  (Some ''Add "name" property to each breadcrumb item''))))
            (elements itemListElement)))\<close>

definition validateFAQPage :: "js_runtime \<Rightarrow> jsvalue \<Rightarrow> check" where
  \<open>validateFAQPage rt schema =
     ifThen (andAlso (has schema ''mainEntity'')
               (map_option isArray (getProp schema ''mainEntity'')))
       (bindThen (getProp schema ''mainEntity'') (\<lambda>mainEntity.
          forEach (\<lambda>faq index. steps
             [ifThen (lacks faq ''question'')
                (pushError (finding Error
                   (''FAQ '' @ show_nat (index + 1) @ '' missing question'')
                   (Some (''mainEntity['' @ show_nat index @ ''].question''))
                   (Some ''Add "question" property to each FAQ item''))),
              ifThen (lacks faq ''answer'')
                (pushError (finding Error
                   (''FAQ '' @ show_nat (index + 1) @ '' missing answer'')
                   (Some (''mainEntity['' @ show_nat index @ ''].answer''))
                   (Some ''Add "answer" property to each FAQ item'')))])
            (elements mainEntity)))\<close>

definition validateHowTo :: "js_runtime \<Rightarrow> jsvalue \<Rightarrow> check" where
  \<open>validateHowTo rt schema =
     ifThen (andAlso (has schema ''step'') (map_option isArray (getProp schema ''step'')))
       (bindThen (getProp schema ''step'') (\<lambda>step.
          forEach (\<lambda>s index.
             ifThen (lacks s ''name'')
               (pushError (finding Error
                  (''HowTo step '' @ show_nat (index + 1) @ '' missing name'')
                  (Some (''step['' @ show_nat index @ ''].name''))
                  (Some ''Add "name" property to each step''))))
            (elements step)))\<close>

definition reviewRatingIncomplete :: ValidationError where
  \<open>reviewRatingIncomplete =
     finding Error ''Review rating missing required properties'' None
       (Some ''Add "ratingValue" and "bestRating" to reviewRating'')\<close>

definition validateReview :: "js_runtime \<Rightarrow> jsvalue \<Rightarrow> check" where
  \<open>validateReview rt schema =
     ifThen (has schema ''reviewRating'')
       (ifThen (getProp schema ''reviewRating'' \<bind> (\<lambda>reviewRating.
                  orElse (lacks reviewRating ''ratingValue'') (lacks reviewRating ''bestRating'')))
          (pushError reviewRatingIncomplete))\<close>

definition validateLocalBusiness :: "js_runtime \<Rightarrow> jsvalue \<Rightarrow> check" where
  \<open>validateLocalBusiness rt schema =
     ifThen (has schema ''address'')
       (ifThen (getProp schema ''address'' \<bind> (\<lambda>address.
                  orElse (lacks address ''streetAddress'') (lacks address ''addressLocality'')))
          (pushWarning (finding Warning ''Address missing recommended properties'' None
             (Some ''Add "streetAddress" and "addressLocality" to address''))))\<close>

text \<open>The \<open>switch\<close> compares with \<open>===\<close>, so only a string selects a case.\<close>

definition validateSpecificTypes :: "js_runtime \<Rightarrow> jsvalue \<Rightarrow> jsvalue \<Rightarrow> check" where
  "validateSpecificTypes rt schema schemaType =
     (if schemaType = JStr ''Article'' then validateArticle rt schema
      else if schemaType = JStr ''Product'' then validateProduct rt schema
      else if schemaType = JStr ''Organization'' then validateOrganization rt schema
      else if schemaType = JStr ''Event'' then validateEvent rt schema
      else if schemaType = JStr ''BreadcrumbList'' then validateBreadcrumbList rt schema
      else if schemaType = JStr ''FAQPage'' then validateFAQPage rt schema
      else if schemaType = JStr ''HowTo'' then validateHowTo rt schema
      else if schemaType = JStr ''Review'' then validateReview rt schema
      else if schemaType = JStr ''LocalBusiness'' then validateLocalBusiness rt schema
      else skip)"

section \<open>Structure validators (lines 144-234)\<close>

definition validateJsonLdStructure :: "jsvalue \<Rightarrow> check" where
  \<open>validateJsonLdStructure schema = steps
    [ifThenElse (lacks schema ''@context'')
       (pushError (finding Error ''Missing @context property'' None
          (Some ''Add "@context": "https://schema.org" to your schema'')))
       (ifThen (map_option (\<lambda>c. \<not> strict_eq c (JStr ''https://schema.org''))
                  (getProp schema ''@context''))
          (pushWarning (finding Warning ''Non-standard @context value'' None
             (Some ''Consider using "https://schema.org" for better compatibility'')))),
     ifThen (lacks schema ''@type'')
       (pushError (finding Error ''Missing @type property'' None
          (Some ''Add "@type" property to specify the schema type''))),
     ifThen (lacks schema ''@id'')
       (pushWarning (finding Warning ''Missing @id property'' None
          (Some ''Consider adding "@id" for better entity identification'')))]\<close>

text \<open>The two loops over the entry that \<open>SCHEMA_REQUIREMENTS[schemaType] || SCHEMA_REQUIREMENTS[expectedType]\<close> gives.\<close>

definition missingRequired :: "string \<Rightarrow> ValidationError" where
  \<open>missingRequired prop =
     finding Error (''Missing required property: '' @ prop) (Some prop)
       (Some (''Add "'' @ prop @ ''" property to your schema''))\<close>

definition missingRecommended :: "string \<Rightarrow> ValidationError" where
  \<open>missingRecommended prop =
     finding Warning (''Missing recommended property: '' @ prop) (Some prop)
       (Some (''Consider adding "'' @ prop @ ''" for better SEO''))\<close>

definition checkRequirements :: "jsvalue \<Rightarrow> requirement \<Rightarrow> check" where
  "checkRequirements schema requirements = steps
    [forEach (\<lambda>prop index. ifThen (lacks schema prop) (pushError (missingRequired prop)))
       (required requirements),
     forEach (\<lambda>prop index. ifThen (lacks schema prop) (pushWarning (missingRecommended prop)))
       (recommended requirements)]"

definition typeMismatch :: "string \<Rightarrow> string \<Rightarrow> ValidationError" where
  \<open>typeMismatch expectedType got =
     finding Warning
       (''Schema type mismatch: expected "'' @ expectedType @ ''", got "'' @ got @ ''"'')
       None (Some ''Ensure the @type matches the intended schema type'')\<close>

definition validateSchemaOrgStructure :: "js_runtime \<Rightarrow> jsvalue \<Rightarrow> string \<Rightarrow> check" where
  \<open>validateSchemaOrgStructure rt schema expectedType =
     bindThen (getProp schema ''@type'') (\<lambda>schemaType. steps
       [ifThen (Some (truthy schemaType \<and> \<not> strict_eq schemaType (JStr expectedType)))
          (bindThen (js_toString rt schemaType) (\<lambda>got.
             pushWarning (typeMismatch expectedType got))),
        bindThen (js_toString rt schemaType) (\<lambda>key.
          (case (case requirementsOf key of
                   Absent \<Rightarrow> requirementsOf expectedType
                 | Inherited \<Rightarrow> Inherited
                 | Entry e \<Rightarrow> Entry e) of
             Absent \<Rightarrow> skip
           | Inherited \<Rightarrow> Threw
           | Entry requirements \<Rightarrow> checkRequirements schema requirements)),
        validateSpecificTypes rt schema schemaType])\<close>

section \<open>Datatype checks (lines 489-606)\<close>

text \<open>Each commented block of \<open>validateDataTypes\<close> is one check; the function runs them in order.\<close>

definition checkUrlProperties :: "js_runtime \<Rightarrow> jsvalue \<Rightarrow> check" where
  \<open>checkUrlProperties rt schema =
     forEach (\<lambda>prop index.
        ifThen (has schema prop)
          (ifThen (andAlso (map_option isString (getProp schema prop))
                     (fails rt url (getProp schema prop)))
             (pushError (finding Error (''Invalid URL format for '' @ prop) (Some prop)
                (Some ''Use a valid HTTP/HTTPS URL'')))))
       [''url'', ''image'', ''logo'', ''sameAs'', ''mainEntityOfPage'', ''item'']\<close>

definition checkEmail :: "js_runtime \<Rightarrow> jsvalue \<Rightarrow> check" where
  \<open>checkEmail rt schema =
     ifThen (andAlso (has schema ''email'') (fails rt email (getProp schema ''email'')))
       (pushError (finding Error ''Invalid email format'' (Some ''email'')
          (Some ''Use a valid email address format'')))\<close>

definition checkImageProperties :: "js_runtime \<Rightarrow> jsvalue \<Rightarrow> check" where
  \<open>checkImageProperties rt schema =
     forEach (\<lambda>prop index.
        ifThen (has schema prop)
          (ifThen (andAlso (map_option isString (getProp schema prop))
                     (fails rt imageUrl (getProp schema prop)))
             (pushWarning (finding Warning
                (''Image URL may not be a valid image format for '' @ prop) (Some prop)
                (Some ''Use JPG, PNG, GIF, WebP, or SVG image formats'')))))
       [''image'', ''logo'', ''photo'']\<close>

definition checkOffers :: "js_runtime \<Rightarrow> jsvalue \<Rightarrow> check" where
  \<open>checkOffers rt schema =
     ifThen (andAlso (has schema ''offers'') (map_option isArray (getProp schema ''offers'')))
       (bindThen (getProp schema ''offers'') (\<lambda>offers.
          forEach (\<lambda>offer index. steps
             [ifThen (andAlso (has offer ''price'')
                        (map_option Not
                           (getProp offer ''price'' \<bind> js_toString rt
                              \<bind> (\<lambda>str. test rt price (JStr str)))))
                (pushError (finding Error
                   (''Invalid price format in offers['' @ show_nat index @ '']'')
                   (Some (''offers['' @ show_nat index @ ''].price''))
                   (Some ''Use numeric format like 19.99''))),
              ifThen (andAlso (has offer ''priceCurrency'')
                        (fails rt currency (getProp offer ''priceCurrency'')))
                (pushError (finding Error
                   (''Invalid currency code in offers['' @ show_nat index @ '']'')
                   (Some (''offers['' @ show_nat index @ ''].priceCurrency''))
                   (Some ''Use 3-letter ISO 4217 currency code like USD, EUR, GBP''))),
              ifThen (andAlso (has offer ''availability'')
                        (map_option (\<lambda>a. \<not> (\<exists>s \<in> set [''InStock'', ''OutOfStock'', ''PreOrder'',
                                                  ''SoldOut'', ''Discontinued'']. a = JStr s))
                           (getProp offer ''availability'')))
                (pushWarning (finding Warning
                   (''Non-standard availability value in offers['' @ show_nat index @ '']'')
                   (Some (''offers['' @ show_nat index @ ''].availability''))
                   (Some ''Use standard Schema.org availability values'')))])
            (elements offers)))\<close>

definition ratingValueWarning :: ValidationError where
  "ratingValueWarning =
     finding Warning ''Rating value outside typical 1-5 range''
       (Some ''aggregateRating.ratingValue'')
       (Some ''Use values between 1 and 5 for better compatibility'')"

definition bestRatingWarning :: ValidationError where
  "bestRatingWarning =
     finding Warning ''Best rating is not 5'' (Some ''aggregateRating.bestRating'')
       (Some ''Use 5 as the best rating for standard 5-star systems'')"

definition checkRatingValue :: "js_runtime \<Rightarrow> jsvalue \<Rightarrow> check" where
  \<open>checkRatingValue rt rating =
     ifThen (andAlso (has rating ''ratingValue'')
               (getProp rating ''ratingValue'' \<bind> (\<lambda>ratingValue.
                  orElse (js_lt rt ratingValue 1) (js_gt rt ratingValue 5))))
       (pushWarning ratingValueWarning)\<close>

definition checkBestRating :: "jsvalue \<Rightarrow> check" where
  \<open>checkBestRating rating =
     ifThen (andAlso (has rating ''bestRating'')
               (map_option (\<lambda>bestRating. \<not> strict_eq bestRating (JNum 5))
                  (getProp rating ''bestRating'')))
       (pushWarning bestRatingWarning)\<close>

definition checkRating :: "js_runtime \<Rightarrow> jsvalue \<Rightarrow> check" where
  \<open>checkRating rt schema =
     ifThen (has schema ''aggregateRating'')
       (bindThen (getProp schema ''aggregateRating'') (\<lambda>rating. steps
          [checkRatingValue rt rating, checkBestRating rating]))\<close>

definition checkPostalCode :: "js_runtime \<Rightarrow> jsvalue \<Rightarrow> check" where
  \<open>checkPostalCode rt schema =
     ifThen (andAlso (has schema ''address'')
               (getProp schema ''address'' \<bind> (\<lambda>address.
                  andAlso (has address ''postalCode'')
                    (fails rt postalCode (getProp address ''postalCode'')))))
       (pushWarning (finding Warning ''Postal code format may be invalid''
          (Some ''address.postalCode'')
          (Some ''Check postal code format for the specific country'')))\<close>

definition checkSchemaContext :: "js_runtime \<Rightarrow> jsvalue \<Rightarrow> check" where
  \<open>checkSchemaContext rt schema =
     ifThen (andAlso (has schema ''@context'')
               (fails rt schemaContext (getProp schema ''@context'')))
       (pushWarning (finding Warning ''Non-standard @context value'' (Some ''@context'')
          (Some ''Use "https://schema.org" for better compatibility'')))\<close>

definition validateDataTypes :: "js_runtime \<Rightarrow> jsvalue \<Rightarrow> check" where
  "validateDataTypes rt schema = steps
    [checkUrlProperties rt schema,
     checkEmail rt schema,
     checkImageProperties rt schema,
     checkOffers rt schema,
     checkRating rt schema,
     checkPostalCode rt schema,
     checkSchemaContext rt schema]"

section \<open>Content-quality checks (lines 608-713)\<close>

definition genericTerms :: "string list" where
  "genericTerms =
     [''lorem ipsum'', ''sample text'', ''placeholder'', ''coming soon'', ''under construction'']"

text \<open>
  The word counter is the object literal \<open>{}\<close>, which inherits \<open>constructor\<close> and
  \<open>__proto__\<close>, the only two lower-case names of \<open>Object.prototype\<close>: for these two words
  \<open>acc[word] || 0\<close> is not a number and the entry never holds a count.
\<close>

definition countWord :: "(string \<times> nat) list \<Rightarrow> string \<Rightarrow> (string \<times> nat) list" where
  "countWord acc word =
     (if length word > 3 \<and> word \<notin> set [''constructor'', ''__proto__'']
      then (case map_of acc word of
              None \<Rightarrow> acc @ [(word, 1)]
            | Some c \<Rightarrow> map (\<lambda>(w, n). if w = word then (w, n + 1) else (w, n)) acc)
      else acc)"

definition repeatedWords :: "string \<Rightarrow> (string \<times> nat) list" where
  "repeatedWords lowered =
     filter (\<lambda>(w, count). count > 3) (foldl countWord [] (split_ws lowered))"

text \<open>Each commented block of \<open>validateContentQuality\<close> is one check; the function runs them in order.\<close>

definition emptyValue :: "string \<Rightarrow> ValidationError" where
  "emptyValue key =
     finding Warning (''Empty value for property: '' @ key) (Some key)
       (Some ''Provide meaningful content for better SEO'')"

definition descriptionTooShort :: ValidationError where
  "descriptionTooShort =
     finding Warning ''Description is too short'' None
       (Some ''Write descriptions with at least 50 characters for better SEO'')"

definition descriptionTooLong :: ValidationError where
  "descriptionTooLong =
     finding Warning ''Description is too long'' None
       (Some ''Keep descriptions under 160 characters for better display'')"

definition descriptionMayBeTooShort :: ValidationError where
  "descriptionMayBeTooShort =
     finding Warning ''Description may be too short'' None
       (Some ''Provide more detailed description for better SEO'')"

definition headlineTooLongForSEO :: ValidationError where
  "headlineTooLongForSEO =
     finding Warning ''Headline is too long for optimal SEO'' None
       (Some ''Keep headlines under 110 characters for better search display'')"

definition checkEmptyStrings :: "jsvalue \<Rightarrow> check" where
  \<open>checkEmptyStrings schema =
     bindThen (Object_keys schema) (\<lambda>keys.
       forEach (\<lambda>key index.
          ifThen (map_option (\<lambda>v. case v of JStr str \<Rightarrow> trimsToEmpty str | _ \<Rightarrow> False)
                    (getProp schema key))
            (pushWarning (emptyValue key)))
         keys)\<close>

definition checkDescriptionLength :: "js_runtime \<Rightarrow> jsvalue \<Rightarrow> check" where
  \<open>checkDescriptionLength rt schema =
     ifThen (has schema ''description'')
       (bindThen (getProp schema ''description'' \<bind> (\<lambda>d. getProp d ''length'')) (\<lambda>len.
          ifThenElse (js_lt rt len 50)
            (pushWarning descriptionTooShort)
            (ifThen (js_gt rt len 160) (pushWarning descriptionTooLong))))\<close>

definition checkNameLength :: "js_runtime \<Rightarrow> jsvalue \<Rightarrow> check" where
  \<open>checkNameLength rt schema =
     ifThen (andAlso (has schema ''name'')
               (getProp schema ''name'' \<bind> (\<lambda>n. getProp n ''length'')
                  \<bind> (\<lambda>l. js_gt rt l 100)))
       (pushWarning (finding Warning ''Name is very long'' None
          (Some ''Keep names under 100 characters for better display'')))\<close>

definition checkHeadlineLength :: "js_runtime \<Rightarrow> jsvalue \<Rightarrow> string \<Rightarrow> check" where
  \<open>checkHeadlineLength rt schema schemaType =
     ifThen (andAlso (Some (schemaType = ''Article''))
               (andAlso (has schema ''headline'')
                  (getProp schema ''headline'' \<bind> (\<lambda>h. getProp h ''length'')
                     \<bind> (\<lambda>l. js_gt rt l 110))))
       (pushWarning headlineTooLongForSEO)\<close>

definition checkDuplicateContent :: "jsvalue \<Rightarrow> check" where
  \<open>checkDuplicateContent schema =
     ifThen (andAlso (has schema ''name'')
               (andAlso (has schema ''headline'')
                  (getProp schema ''name'' \<bind> (\<lambda>n.
                     map_option (strict_eq n) (getProp schema ''headline'')))))
       (pushInfo (finding Info ''Name and headline are identical'' None
          (Some ''Consider using different values for name and headline'')))\<close>

definition checkPlaceholderContent :: "jsvalue \<Rightarrow> check" where
  \<open>checkPlaceholderContent schema =
     bindThen (Object_keys schema) (\<lambda>keys.
       forEach (\<lambda>key index.
          ifThen (map_option isString (getProp schema key))
            (bindThen (getProp schema key \<bind> toLowerCase) (\<lambda>val.
               ifThen (Some (\<exists>term \<in> set genericTerms. js_includes val term))
                 (pushWarning (finding Warning
                    (''Generic placeholder content detected in '' @ key) (Some key)
                    (Some ''Replace placeholder content with actual meaningful content''))))))
         keys)\<close>

definition checkShortContent :: "js_runtime \<Rightarrow> jsvalue \<Rightarrow> check" where
  \<open>checkShortContent rt schema =
     ifThen (andAlso (has schema ''description'')
               (getProp schema ''description'' \<bind> (\<lambda>d. getProp d ''length'')
                  \<bind> (\<lambda>l. js_lt rt l 20)))
       (pushWarning descriptionMayBeTooShort)\<close>

definition checkRepeatedWords :: "jsvalue \<Rightarrow> check" where
  \<open>checkRepeatedWords schema =
     ifThen (has schema ''description'')
       (bindThen (getProp schema ''description'' \<bind> toLowerCase) (\<lambda>lowered.
          ifThen (Some (length (repeatedWords lowered) > 0))
            (pushWarning (finding Warning ''Potential keyword stuffing detected'' None
               (Some ''Avoid repeating the same words too frequently in descriptions'')))))\<close>

definition validateContentQuality :: "js_runtime \<Rightarrow> jsvalue \<Rightarrow> string \<Rightarrow> check" where
  "validateContentQuality rt schema schemaType = steps
    [checkEmptyStrings schema,
     checkDescriptionLength rt schema,
     checkNameLength rt schema,
     checkHeadlineLength rt schema schemaType,
     checkDuplicateContent schema,
     checkPlaceholderContent schema,
     checkShortContent rt schema,
     checkRepeatedWords schema]"

section \<open>Score and the single-document entry point (lines 90-142, 887-903)\<close>

definition calculateValidationScore ::
  "ValidationError list \<Rightarrow> ValidationError list \<Rightarrow> ValidationError list \<Rightarrow> int" where
  "calculateValidationScore es ws ns =
     (let score = 100;
          score = score - int (length es) * 20;
          score = score - int (length ws) * 5;
          score = score - int (length ns) * 1
      in max 0 (min 100 score))"

definition noFindings :: findings where
  "noFindings = \<lparr>errors = [], warnings = [], info = []\<rparr>"

text \<open>
  The body of the \<open>try\<close> block: \<open>JSON.parse\<close> and the four validators, all appending to the
  same three arrays.
\<close>

definition tryBlock :: "js_runtime \<Rightarrow> schemaObj \<Rightarrow> outcome" where
  "tryBlock rt schemaObj =
     (case JSON_parse rt (s_schema schemaObj) of
        None \<Rightarrow> Threw noFindings
      | Some parsedSchema \<Rightarrow>
          steps [validateJsonLdStructure parsedSchema,
                 validateSchemaOrgStructure rt parsedSchema (s_type schemaObj),
                 validateDataTypes rt parsedSchema,
                 validateContentQuality rt parsedSchema (s_type schemaObj)] noFindings)"

definition invalidJson :: ValidationError where
  "invalidJson = finding Error ''Invalid JSON syntax'' None
     (Some ''Check for missing commas, brackets, or quotes'')"

text \<open>The \<open>catch\<close> clause catches whatever the block throws, not only SyntaxError.\<close>

definition validateSchema :: "js_runtime \<Rightarrow> schemaObj \<Rightarrow> ValidationResult" where
  "validateSchema rt schemaObj =
     (let fs = (case tryBlock rt schemaObj of
                  Completed fs \<Rightarrow> fs
                | Threw fs \<Rightarrow> fs\<lparr>errors := errors fs @ [invalidJson]\<rparr>);
          score = calculateValidationScore (errors fs) (warnings fs) (info fs)
      in \<lparr>errors = errors fs, warnings = warnings fs, info = info fs,
          isValid = (length (errors fs) = 0), score = score\<rparr>)"

definition validateSchemas ::
  "js_runtime \<Rightarrow> schemaObj list \<Rightarrow> (schemaObj \<times> ValidationResult) list" where
  "validateSchemas rt schemas = map (\<lambda>s. (s, validateSchema rt s)) schemas"

section \<open>Batch checks (lines 715-885)\<close>

definition conflictingPairs :: "(string \<times> string) list" where
  "conflictingPairs =
     [(''Recipe'', ''HowTo''), (''Product'', ''Recipe''), (''Event'', ''Article''),
      (''FAQPage'', ''Article''), (''Review'', ''Article'')]"

text \<open>The body of the \<open>try\<close> inside the loop over the schemas; its \<open>catch\<close> is empty.\<close>

definition appropriateness :: "js_runtime \<Rightarrow> schemaObj \<Rightarrow> check" where
  "appropriateness rt s =
     bindThen (JSON_parse rt (s_schema s)) (\<lambda>parsed. steps
       [ifThen (Some (s_type s = ''Article''))
          (ifThen (map_option Not
                     (andAlso (has parsed ''headline'')
                        (andAlso (has parsed ''description'')
                           (andAlso (orElse (has parsed ''author'') (has parsed ''publisher''))
                              (orElse (has parsed ''datePublished'')
                                 (has parsed ''dateModified''))))))
             (pushWarning (finding Warning
                ''Article schema may be missing essential properties'' None
                (Some ''Ensure Article schema includes headline, description, author/publisher, and publication dates'')))),
        ifThen (Some (s_type s = ''Product''))
          (ifThen (map_option Not
                     (orElse (has parsed ''offers'')
                        (orElse (has parsed ''price'') (has parsed ''availability''))))
             (pushWarning (finding Warning
                ''Product schema may be missing commercial properties'' None
                (Some ''Include offers, price, or availability information for better rich snippets'')))),
        ifThen (Some (s_type s = ''Organization''))
          (ifThen (map_option Not
                     (andAlso (has parsed ''address'') (has parsed ''contactPoint'')))
             (pushWarning (finding Warning
                ''Organization schema may be missing contact information'' None
                (Some ''Include complete address and contact point for better local SEO''))))])"

text \<open>The loop over \<open>conflictingPairs\<close>: \<open>conflictStep\<close> is its body.\<close>

definition conflictWarning :: "string \<Rightarrow> string \<Rightarrow> ValidationError" where
  "conflictWarning type1 type2 =
     finding Warning (''Potential conflict between '' @ type1 @ '' and '' @ type2 @ '' schemas'')
       None
       (Some ''These schema types may compete for rich snippet display. Consider prioritizing the most relevant one.'')"

definition conflictStep :: "string list \<Rightarrow> findings \<Rightarrow> string \<times> string \<Rightarrow> findings" where
  "conflictStep schemaTypes fs pair =
     (case pair of (type1, type2) \<Rightarrow>
        if type1 \<in> set schemaTypes \<and> type2 \<in> set schemaTypes
        then fs\<lparr>warnings := warnings fs @ [conflictWarning type1 type2]\<rparr>
        else fs)"

definition conflictingSchemas :: "string list \<Rightarrow> findings \<Rightarrow> findings" where
  "conflictingSchemas schemaTypes fs0 = foldl (conflictStep schemaTypes) fs0 conflictingPairs"

text \<open>The check for missing essential schemas.\<close>

definition essentialSchemas :: "string list \<Rightarrow> findings \<Rightarrow> findings" where
  "essentialSchemas schemaTypes fs =
     (let hasOrganization = (''Organization'' \<in> set schemaTypes);
          hasWebSite = (''WebSite'' \<in> set schemaTypes)
      in if \<not> hasOrganization \<and> \<not> hasWebSite
         then fs\<lparr>info := info fs @
                [finding Info ''Consider adding Organization or WebSite schema'' None
                   (Some ''Organization schema helps establish site identity, WebSite schema provides site-level metadata'')]\<rparr>
         else fs)"

text \<open>The check of the number of schemas.\<close>

definition schemaCountCheck :: "nat \<Rightarrow> findings \<Rightarrow> findings" where
  "schemaCountCheck schemaCount fs =
     (if schemaCount > 10
      then fs\<lparr>warnings := warnings fs @
             [finding Warning ''High number of schema types detected'' None
                (Some ''Consider limiting to 2-10 relevant schemas per page for optimal SEO performance'')]\<rparr>
      else if schemaCount < 2
      then fs\<lparr>info := info fs @
             [finding Info ''Consider adding more schema types'' None
                (Some ''Multiple relevant schemas can enhance search engine understanding'')]\<rparr>
      else fs)"

definition validateSchemaRelationships :: "js_runtime \<Rightarrow> schemaObj list \<Rightarrow> findings \<Rightarrow> findings" where
  "validateSchemaRelationships rt schemas fs0 =
     (let schemaTypes = map s_type schemas;
          fs1 = conflictingSchemas schemaTypes fs0;
          fs2 = essentialSchemas schemaTypes fs1;
          fs3 = foldl (\<lambda>fs s. findingsOf (appropriateness rt s fs)) fs2 schemas;
          schemaCount = length schemaTypes
      in schemaCountCheck schemaCount fs3)"

definition recommend :: "string list \<Rightarrow> string list" where
  "recommend schemaTypes =
     (if ''Article'' \<in> set schemaTypes \<and> ''WebSite'' \<notin> set schemaTypes
      then [''Add WebSite schema to establish site-level metadata''] else []) @
     (if ''Product'' \<in> set schemaTypes \<and> ''Organization'' \<notin> set schemaTypes
      then [''Add Organization schema to establish business identity''] else []) @
     (if ''LocalBusiness'' \<in> set schemaTypes \<and> ''Organization'' \<notin> set schemaTypes
      then [''Consider adding Organization schema for business verification''] else []) @
     (if ''FAQPage'' \<in> set schemaTypes \<and> length schemaTypes < 3
      then [''FAQ pages benefit from additional schemas like Article or WebSite''] else []) @
     (if \<not> (\<exists>t \<in> set schemaTypes. t \<in> set [''Article'', ''Product'', ''Event'', ''FAQPage''])
      then [''Consider content-specific schemas like Article, Product, or Event''] else [])"

definition validateSchemasForSEO :: "js_runtime \<Rightarrow> schemaObj list \<Rightarrow> SEOReport" where
  "validateSchemasForSEO rt schemas =
     (let validatedSchemas = map (\<lambda>s. (s, validateSchema rt s)) schemas;
          collected = foldl (\<lambda>fs (s, validation).
                         \<lparr>errors = errors fs @ errors validation,
                          warnings = warnings fs @ warnings validation,
                          info = info fs @ info validation\<rparr>) noFindings validatedSchemas;
          fs = validateSchemaRelationships rt schemas collected
      in \<lparr>errors = errors fs, warnings = warnings fs, info = info fs,
          recommendations = recommend (map s_type schemas)\<rparr>)"

section \<open>Example documents\<close>

text \<open>
  JSON texts with the value \<open>JSON.parse\<close> gives for each, and a runtime that parses exactly
  these texts (every other text is taken as malformed). The examples convert no number to
  a string and no string to a number, so the two conversions are left trivial here.
\<close>

definition longHeadline :: string where
  "longHeadline = replicate 111 CHR ''h''"

definition exampleTexts :: "(string \<times> jsvalue) list" where
  \<open>exampleTexts =
    [(''null'', JNull),
     (''{"@context":"https://schema.org","@type":"Organization","name":"Acme"}'',
        JObj [(''@context'', JStr ''https://schema.org''), (''@type'', JStr ''Organization''),
              (''name'', JStr ''Acme'')]),
     (''{"@type":"Article"}'', JObj [(''@type'', JStr ''Article'')]),
     (''{"@type":"FAQPage"}'', JObj [(''@type'', JStr ''FAQPage'')]),
     (''{"@context":"https://schema.org","@type":"BreadcrumbList","itemListElement":[null],"description":"short"}'',
        JObj [(''@context'', JStr ''https://schema.org''), (''@type'', JStr ''BreadcrumbList''),
              (''itemListElement'', JArr [JNull]), (''description'', JStr ''short'')]),
     (''{"@context":"https://schema.org","@type":"BreadcrumbList","itemListElement":[{"name":"Home"}],"description":"short"}'',
        JObj [(''@context'', JStr ''https://schema.org''), (''@type'', JStr ''BreadcrumbList''),
              (''itemListElement'', JArr [JObj [(''name'', JStr ''Home'')]]),
              (''description'', JStr ''short'')]),
     (''{"@context":"https://schema.org","@type":"Article","headline":"'' @ longHeadline
          @ ''","offers":[null]}'',
        JObj [(''@context'', JStr ''https://schema.org''), (''@type'', JStr ''Article''),
              (''headline'', JStr longHeadline), (''offers'', JArr [JNull])]),
     (''{"@context":"https://schema.org","@type":"Article","headline":"'' @ longHeadline
          @ ''"}'',
        JObj [(''@context'', JStr ''https://schema.org''), (''@type'', JStr ''Article''),
              (''headline'', JStr longHeadline)]),
     (''{"@context":"","@type":"BreadcrumbList","itemListElement":[null]}'',
        JObj [(''@context'', JStr []), (''@type'', JStr ''BreadcrumbList''),
              (''itemListElement'', JArr [JNull])]),
     (''{"@context":"","@type":"BreadcrumbList","itemListElement":[{"name":"Home"}]}'',
        JObj [(''@context'', JStr []), (''@type'', JStr ''BreadcrumbList''),
              (''itemListElement'', JArr [JObj [(''name'', JStr ''Home'')]])]),
     (''{"@type":""}'', JObj [(''@type'', JStr [])]),
     (''{"@type":"Product"}'', JObj [(''@type'', JStr ''Product'')])]\<close>

definition exampleRuntime :: js_runtime where
  "exampleRuntime =
     \<lparr>JSON_parse = map_of exampleTexts,
      Number_toString = (\<lambda>r. []),
      StringToNumber = (\<lambda>s. None)\<rparr>"

definition organizationAcme :: schemaObj where
  \<open>organizationAcme =
     \<lparr>s_type = ''Organization'',
      s_schema = ''{"@context":"https://schema.org","@type":"Organization","name":"Acme"}''\<rparr>\<close>

definition unbalancedBrace :: schemaObj where
  "unbalancedBrace = \<lparr>s_type = ''Article'', s_schema = ''{''\<rparr>"

definition nullDocument :: schemaObj where
  "nullDocument = \<lparr>s_type = ''Article'', s_schema = ''null''\<rparr>"

definition breadcrumbNullItem :: schemaObj where
  \<open>breadcrumbNullItem =
     \<lparr>s_type = ''BreadcrumbList'',
      s_schema = ''{"@context":"https://schema.org","@type":"BreadcrumbList","itemListElement":[null],"description":"short"}''\<rparr>\<close>

definition breadcrumbHome :: schemaObj where
  \<open>breadcrumbHome =
     \<lparr>s_type = ''BreadcrumbList'',
      s_schema = ''{"@context":"https://schema.org","@type":"BreadcrumbList","itemListElement":[{"name":"Home"}],"description":"short"}''\<rparr>\<close>

definition articleNullOffer :: schemaObj where
  \<open>articleNullOffer =
     \<lparr>s_type = ''Article'',
      s_schema = ''{"@context":"https://schema.org","@type":"Article","headline":"'' @ longHeadline
          @ ''","offers":[null]}''\<rparr>\<close>

definition articleLongHeadline :: schemaObj where
  \<open>articleLongHeadline =
     \<lparr>s_type = ''Article'',
      s_schema = ''{"@context":"https://schema.org","@type":"Article","headline":"'' @ longHeadline
          @ ''"}''\<rparr>\<close>

definition emptyContextNullItem :: schemaObj where
  \<open>emptyContextNullItem =
     \<lparr>s_type = ''BreadcrumbList'',
      s_schema = ''{"@context":"","@type":"BreadcrumbList","itemListElement":[null]}''\<rparr>\<close>

definition emptyContextHome :: schemaObj where
  \<open>emptyContextHome =
     \<lparr>s_type = ''BreadcrumbList'',
      s_schema = ''{"@context":"","@type":"BreadcrumbList","itemListElement":[{"name":"Home"}]}''\<rparr>\<close>

definition emptyType :: schemaObj where
  \<open>emptyType = \<lparr>s_type = ''Article'', s_schema = ''{"@type":""}''\<rparr>\<close>

definition productAsArticle :: schemaObj where
  \<open>productAsArticle = \<lparr>s_type = ''Article'', s_schema = ''{"@type":"Product"}''\<rparr>\<close>

definition articleAndFaq :: "schemaObj list" where
  \<open>articleAndFaq = [\<lparr>s_type = ''Article'', s_schema = ''{"@type":"Article"}''\<rparr>,
                    \<lparr>s_type = ''FAQPage'', s_schema = ''{"@type":"FAQPage"}''\<rparr>]\<close>

text \<open>
  Parsed documents with an \<open>aggregateRating\<close>, \<open>{"ratingValue":7,"bestRating":10}\<close> and
  \<open>{"ratingValue":0,"bestRating":0}\<close>; and one whose \<open>name\<close> is an object with a \<open>length\<close>
  that has no conversion to a primitive value:
  \<open>{"description":"short","name":{"length":{"toString":1}}}\<close>.
\<close>

definition outOfRangeRating :: jsvalue where
  "outOfRangeRating =
     JObj [(''aggregateRating'', JObj [(''ratingValue'', JNum 7), (''bestRating'', JNum 10)])]"

definition zeroRating :: jsvalue where
  "zeroRating =
     JObj [(''aggregateRating'', JObj [(''ratingValue'', JNum 0), (''bestRating'', JNum 0)])]"

definition unconvertibleName :: jsvalue where
  "unconvertibleName =
     JObj [(''description'', JStr ''short''),
           (''name'', JObj [(''length'', JObj [(''toString'', JNum 1)])])]"

section \<open>What a check adds\<close>

text \<open>
  \<open>extends P fs fs'\<close>: the arrays \<open>fs'\<close> are the arrays \<open>fs\<close> with findings appended that all
  satisfy \<open>P\<close>. \<open>appendsOnly P c\<close>: whether the check \<open>c\<close> returns or throws, it leaves the
  arrays so extended.
\<close>

definition extends :: "(ValidationError \<Rightarrow> bool) \<Rightarrow> findings \<Rightarrow> findings \<Rightarrow> bool" where
  "extends P fs fs' \<longleftrightarrow>
     (\<exists>es ws ns. fs' = \<lparr>errors = errors fs @ es, warnings = warnings fs @ ws, info = info fs @ ns\<rparr>
        \<and> list_all P es \<and> list_all P ws \<and> list_all P ns)"

definition appendsOnly :: "(ValidationError \<Rightarrow> bool) \<Rightarrow> check \<Rightarrow> bool" where
  "appendsOnly P c \<longleftrightarrow> (\<forall>fs. extends P fs (findingsOf (c fs)))"

text \<open>
  The entry the specification describes: that of the document's own type when the table
  has one, otherwise that of the expected type.
\<close>

definition resolvedEntry :: "string \<Rightarrow> string \<Rightarrow> requirement option" where
  "resolvedEntry ownType expectedType =
     (case map_of SCHEMA_REQUIREMENTS ownType of
        Some e \<Rightarrow> Some e
      | None \<Rightarrow> map_of SCHEMA_REQUIREMENTS expectedType)"

definition isMismatchWarning :: "ValidationError \<Rightarrow> bool" where
  "isMismatchWarning w \<longleftrightarrow> type w = Warning \<and> take 20 (message w) = ''Schema type mismatch''"

text \<open>A finding whose message starts neither like "Missing ..." nor like "Schema type mismatch".\<close>

definition otherMessage :: "ValidationError \<Rightarrow> bool" where
  "otherMessage f \<longleftrightarrow> take 1 (message f) \<noteq> ''M'' \<and> take 1 (message f) \<noteq> ''S''"

text \<open>What \<open>validateSchemaOrgStructure\<close> appends before it calls \<open>validateSpecificTypes\<close>.\<close>

definition mismatchWarnings :: "jsvalue \<Rightarrow> string \<Rightarrow> string \<Rightarrow> ValidationError list" where
  "mismatchWarnings t expectedType key =
     (if truthy t \<and> t \<noteq> JStr expectedType then [typeMismatch expectedType key] else [])"

definition missingErrors :: "jsvalue \<Rightarrow> requirement option \<Rightarrow> ValidationError list" where
  "missingErrors schema entry =
     (case entry of
        None \<Rightarrow> []
      | Some e \<Rightarrow> map missingRequired (filter (\<lambda>p. lacks schema p = Some True) (required e)))"

definition missingWarnings :: "jsvalue \<Rightarrow> requirement option \<Rightarrow> ValidationError list" where
  "missingWarnings schema entry =
     (case entry of
        None \<Rightarrow> []
      | Some e \<Rightarrow> map missingRecommended (filter (\<lambda>p. lacks schema p = Some True) (recommended e)))"

text \<open>
  The warnings whose message starts with "H" (in \<open>validateSchema\<close> only the two headline
  warnings do), and a check that adds exactly the warnings \<open>xs\<close> of that kind when it returns.
\<close>

definition notHeadline :: "ValidationError \<Rightarrow> bool" where
  "notHeadline f \<longleftrightarrow> take 1 (message f) \<noteq> ''H''"

definition headlineWarnings :: "findings \<Rightarrow> ValidationError list" where
  "headlineWarnings fs = filter (\<lambda>f. \<not> notHeadline f) (warnings fs)"

definition adds :: "check \<Rightarrow> ValidationError list \<Rightarrow> bool" where
  "adds c xs \<longleftrightarrow> (\<forall>fs fs'. c fs = Completed fs' \<longrightarrow> headlineWarnings fs' = headlineWarnings fs @ xs)"

section \<open>Checks only append\<close>

lemma extends_refl: "extends P fs fs"
  unfolding extends_def by (rule exI [of _ "[]"], rule exI [of _ "[]"], rule exI [of _ "[]"]) simp

lemma extends_trans:
  assumes "extends P a b" and "extends P b c"
  shows "extends P a c"
proof -
  from assms(1) obtain es ws ns where
    b: "b = \<lparr>errors = errors a @ es, warnings = warnings a @ ws, info = info a @ ns\<rparr>"
    and p: "list_all P es" "list_all P ws" "list_all P ns"
    unfolding extends_def by blast
  from assms(2) obtain es' ws' ns' where
    c: "c = \<lparr>errors = errors b @ es', warnings = warnings b @ ws', info = info b @ ns'\<rparr>"
    and p': "list_all P es'" "list_all P ws'" "list_all P ns'"
    unfolding extends_def by blast
  have "c = \<lparr>errors = errors a @ (es @ es'), warnings = warnings a @ (ws @ ws'),
             info = info a @ (ns @ ns')\<rparr>"
    using b c by simp
  moreover have "list_all P (es @ es')" "list_all P (ws @ ws')" "list_all P (ns @ ns')"
    using p p' by simp_all
  ultimately show ?thesis unfolding extends_def by blast
qed

lemma extends_warnings: "extends P fs fs' \<Longrightarrow> set (warnings fs) \<subseteq> set (warnings fs')"
  unfolding extends_def by auto

lemma extends_errors: "extends P fs fs' \<Longrightarrow> set (errors fs) \<subseteq> set (errors fs')"
  unfolding extends_def by auto

lemma extends_member_warnings:
  "extends P b c \<Longrightarrow> w \<in> set (warnings b) \<Longrightarrow> w \<in> set (warnings c)"
  using extends_warnings by blast

lemma appendsOnly_pushError: "P e \<Longrightarrow> appendsOnly P (pushError e)"
  unfolding appendsOnly_def extends_def pushError_def
  by (intro allI, rule exI [of _ "[e]"], rule exI [of _ "[]"], rule exI [of _ "[]"]) simp

lemma appendsOnly_pushWarning: "P e \<Longrightarrow> appendsOnly P (pushWarning e)"
  unfolding appendsOnly_def extends_def pushWarning_def
  by (intro allI, rule exI [of _ "[]"], rule exI [of _ "[e]"], rule exI [of _ "[]"]) simp

lemma appendsOnly_pushInfo: "P e \<Longrightarrow> appendsOnly P (pushInfo e)"
  unfolding appendsOnly_def extends_def pushInfo_def
  by (intro allI, rule exI [of _ "[]"], rule exI [of _ "[]"], rule exI [of _ "[e]"]) simp

lemma appendsOnly_skip: "appendsOnly P skip"
  unfolding appendsOnly_def skip_def by (simp add: extends_refl)

lemma appendsOnly_Threw: "appendsOnly P Threw"
  unfolding appendsOnly_def by (simp add: extends_refl)

lemma appendsOnly_ifThen: "appendsOnly P body \<Longrightarrow> appendsOnly P (ifThen c body)"
  unfolding appendsOnly_def ifThen_def by (auto simp: extends_refl split: option.splits)

lemma appendsOnly_ifThenElse:
  "appendsOnly P a \<Longrightarrow> appendsOnly P b \<Longrightarrow> appendsOnly P (ifThenElse c a b)"
  unfolding appendsOnly_def ifThenElse_def by (auto simp: extends_refl split: option.splits)

lemma appendsOnly_bindThen:
  "(\<And>v. appendsOnly P (body v)) \<Longrightarrow> appendsOnly P (bindThen e body)"
  unfolding appendsOnly_def bindThen_def by (auto simp: extends_refl split: option.splits)

lemma appendsOnly_steps:
  assumes "\<And>c. c \<in> set cs \<Longrightarrow> appendsOnly P c"
  shows "appendsOnly P (steps cs)"
  using assms
proof (induction cs)
  case Nil
  show ?case unfolding appendsOnly_def by (simp add: extends_refl)
next
  case (Cons c cs)
  have c: "appendsOnly P c" and cs: "appendsOnly P (steps cs)"
    using Cons by simp_all
  show ?case
    unfolding appendsOnly_def
  proof
    fix fs
    show "extends P fs (findingsOf (steps (c # cs) fs))"
    proof (cases "c fs")
      case (Completed fs')
      then have "extends P fs fs'"
        using c unfolding appendsOnly_def by (metis findingsOf.simps(1))
      moreover have "extends P fs' (findingsOf (steps cs fs'))"
        using cs unfolding appendsOnly_def by blast
      ultimately show ?thesis using Completed by (simp add: extends_trans)
    next
      case (Threw fs')
      then have "extends P fs fs'"
        using c unfolding appendsOnly_def by (metis findingsOf.simps(2))
      then show ?thesis using Threw by simp
    qed
  qed
qed

lemma appendsOnly_forEachFrom:
  assumes "\<And>x i. appendsOnly P (f x i)"
  shows "appendsOnly P (forEachFrom i f xs)"
proof (induction xs arbitrary: i)
  case Nil
  show ?case unfolding appendsOnly_def by (simp add: extends_refl)
next
  case (Cons x xs)
  show ?case
    unfolding appendsOnly_def
  proof
    fix fs
    show "extends P fs (findingsOf (forEachFrom i f (x # xs) fs))"
    proof (cases "f x i fs")
      case (Completed fs')
      then have "extends P fs fs'"
        using assms [of x i] unfolding appendsOnly_def by (metis findingsOf.simps(1))
      moreover have "extends P fs' (findingsOf (forEachFrom (Suc i) f xs fs'))"
        using Cons [of "Suc i"] unfolding appendsOnly_def by blast
      ultimately show ?thesis using Completed by (simp add: extends_trans)
    next
      case (Threw fs')
      then have "extends P fs fs'"
        using assms [of x i] unfolding appendsOnly_def by (metis findingsOf.simps(2))
      then show ?thesis using Threw by simp
    qed
  qed
qed

lemma appendsOnly_forEach:
  "(\<And>x i. appendsOnly P (f x i)) \<Longrightarrow> appendsOnly P (forEach f xs)"
  unfolding forEach_def by (rule appendsOnly_forEachFrom)

lemmas appendsOnly_intros =
  appendsOnly_pushError appendsOnly_pushWarning appendsOnly_pushInfo appendsOnly_skip
  appendsOnly_Threw appendsOnly_ifThen appendsOnly_ifThenElse appendsOnly_bindThen
  appendsOnly_steps appendsOnly_forEach

lemma appendsOnly_steps_Nil: "appendsOnly P (steps [])"
  by (rule appendsOnly_steps) simp

lemma appendsOnly_steps_Cons:
  assumes "appendsOnly P c" and "appendsOnly P (steps cs)"
  shows "appendsOnly P (steps (c # cs))"
  unfolding appendsOnly_def
proof
  fix fs
  show "extends P fs (findingsOf (steps (c # cs) fs))"
  proof (cases "c fs")
    case (Completed fs')
    then have "extends P fs fs'"
      using assms(1) unfolding appendsOnly_def by (metis findingsOf.simps(1))
    moreover have "extends P fs' (findingsOf (steps cs fs'))"
      using assms(2) unfolding appendsOnly_def by blast
    ultimately show ?thesis using Completed by (simp add: extends_trans)
  next
    case (Threw fs')
    then have "extends P fs fs'"
      using assms(1) unfolding appendsOnly_def by (metis findingsOf.simps(2))
    then show ?thesis using Threw by simp
  qed
qed

lemmas appendsOnly_rules =
  appendsOnly_pushError appendsOnly_pushWarning appendsOnly_pushInfo appendsOnly_skip
  appendsOnly_Threw appendsOnly_ifThen appendsOnly_ifThenElse appendsOnly_bindThen
  appendsOnly_steps_Nil appendsOnly_steps_Cons appendsOnly_forEach

text \<open>
  When a sequence of checks returns, each of them has run and returned, on arrays that
  extend the initial ones, and the final arrays extend what it left.
\<close>

lemma steps_run:
  assumes "steps cs fs = Completed fs'" and "c \<in> set cs"
    and "\<And>d. d \<in> set cs \<Longrightarrow> appendsOnly (\<lambda>f. True) d"
  shows "\<exists>a b. c a = Completed b \<and> extends (\<lambda>f. True) fs a \<and> extends (\<lambda>f. True) b fs'"
  using assms
proof (induction cs arbitrary: fs)
  case Nil
  then show ?case by simp
next
  case (Cons d ds)
  from Cons.prems(1) obtain fs1 where d: "d fs = Completed fs1"
    and rest: "steps ds fs1 = Completed fs'"
    by (cases "d fs") simp_all
  have ds_ok: "appendsOnly (\<lambda>f. True) (steps ds)"
    using Cons.prems(3) by (intro appendsOnly_steps) simp
  have d_ok: "extends (\<lambda>f. True) fs fs1"
    using Cons.prems(3) [of d] d unfolding appendsOnly_def
    by (metis findingsOf.simps(1) list.set_intros(1))
  show ?case
  proof (cases "c = d")
    case True
    have "extends (\<lambda>f. True) fs1 fs'"
      using ds_ok rest unfolding appendsOnly_def by (metis findingsOf.simps(1))
    then show ?thesis using True d extends_refl by blast
  next
    case False
    with Cons.prems(2) have "c \<in> set ds" by simp
    from Cons.IH [OF rest this] Cons.prems(3)
    obtain a b where "c a = Completed b" "extends (\<lambda>f. True) fs1 a" "extends (\<lambda>f. True) b fs'"
      by auto
    then show ?thesis using d_ok extends_trans by blast
  qed
qed

lemma appendsOnly_rating_parts:
  "appendsOnly (\<lambda>f. True) (checkRatingValue rt rating)"
  "appendsOnly (\<lambda>f. True) (checkBestRating rating)"
  unfolding checkRatingValue_def checkBestRating_def
  by (auto intro!: appendsOnly_intros)

lemma appendsOnly_dataTypes_parts:
  "appendsOnly (\<lambda>f. True) (checkUrlProperties rt schema)"
  "appendsOnly (\<lambda>f. True) (checkEmail rt schema)"
  "appendsOnly (\<lambda>f. True) (checkImageProperties rt schema)"
  "appendsOnly (\<lambda>f. True) (checkOffers rt schema)"
  "appendsOnly (\<lambda>f. True) (checkRating rt schema)"
  "appendsOnly (\<lambda>f. True) (checkPostalCode rt schema)"
  "appendsOnly (\<lambda>f. True) (checkSchemaContext rt schema)"
  unfolding checkUrlProperties_def checkEmail_def checkImageProperties_def checkOffers_def
    checkRating_def checkPostalCode_def checkSchemaContext_def
  by (auto intro!: appendsOnly_intros appendsOnly_rating_parts)

lemma appendsOnly_appropriateness: "appendsOnly (\<lambda>f. True) (appropriateness rt s)"
  unfolding appropriateness_def
  by (intro appendsOnly_intros) (auto intro!: appendsOnly_intros)

section \<open>Score, validity and the parse failure\<close>

text \<open>
  C1. For every result of \<open>validateSchema\<close>, the score is
  \<open>max(0, min(100, 100 - 20*|errors| - 5*|warnings| - 1*|info|))\<close>, the three lengths being
  those of the lists of that same result.
\<close>

theorem validateSchema_score:
  "score (validateSchema rt schemaObj) =
     max 0 (min 100 (100 - 20 * int (length (errors (validateSchema rt schemaObj)))
                         - 5 * int (length (warnings (validateSchema rt schemaObj)))
                         - 1 * int (length (info (validateSchema rt schemaObj)))))"
  by (simp add: validateSchema_def calculateValidationScore_def Let_def)

text \<open>The Organization example of the specification: no error, six warnings, score 70.\<close>

theorem validateSchema_score_witness:
  "score (validateSchema exampleRuntime organizationAcme) = 70"
proof -
  have "length (errors (validateSchema exampleRuntime organizationAcme)) = 0"
    by code_simp
  moreover have "length (warnings (validateSchema exampleRuntime organizationAcme)) = 6"
    by code_simp
  moreover have "length (info (validateSchema exampleRuntime organizationAcme)) = 0"
    by code_simp
  ultimately show ?thesis
    using validateSchema_score [of exampleRuntime organizationAcme] by simp
qed

text \<open>
  C2. For every result of \<open>validateSchema\<close>, \<open>isValid\<close> holds if and only if the list of
  errors is empty, whatever the warnings and the info findings are.
\<close>

theorem validateSchema_isValid:
  "isValid (validateSchema rt schemaObj) \<longleftrightarrow> errors (validateSchema rt schemaObj) = []"
  by (simp add: validateSchema_def Let_def)

theorem validateSchema_isValid_witness:
  "isValid (validateSchema exampleRuntime organizationAcme) \<and>
   length (warnings (validateSchema exampleRuntime organizationAcme)) = 6"
proof -
  have "errors (validateSchema exampleRuntime organizationAcme) = []"
    by code_simp
  moreover have "length (warnings (validateSchema exampleRuntime organizationAcme)) = 6"
    by code_simp
  ultimately show ?thesis
    using validateSchema_isValid [of exampleRuntime organizationAcme] by simp
qed

text \<open>
  C3. When the text does not parse as JSON, the result of \<open>validateSchema\<close> is exactly one
  error, "Invalid JSON syntax", no warning, no info finding, score 80 and \<open>isValid\<close> false:
  no other check has added anything.
\<close>

theorem validateSchema_parse_failure:
  assumes "JSON_parse rt (s_schema schemaObj) = None"
  shows "validateSchema rt schemaObj =
           \<lparr>errors = [finding Error ''Invalid JSON syntax'' None
                        (Some ''Check for missing commas, brackets, or quotes'')],
            warnings = [], info = [], isValid = False, score = 80\<rparr>"
  using assms
  by (simp add: validateSchema_def tryBlock_def noFindings_def invalidJson_def
      calculateValidationScore_def Let_def)

theorem validateSchema_parse_failure_witness:
  "JSON_parse exampleRuntime (s_schema unbalancedBrace) = None \<and>
   validateSchema exampleRuntime unbalancedBrace =
     \<lparr>errors = [finding Error ''Invalid JSON syntax'' None
                  (Some ''Check for missing commas, brackets, or quotes'')],
      warnings = [], info = [], isValid = False, score = 80\<rparr>"
proof -
  have h: "JSON_parse exampleRuntime (s_schema unbalancedBrace) = None"
    by code_simp
  show ?thesis using h validateSchema_parse_failure [OF h] by simp
qed

section \<open>A throw inside a check\<close>

text \<open>
  C4. \<open>validateSchema\<close> is claimed to abort early on a JSON parse failure only, and never to
  report "Invalid JSON syntax" for a text that parses. The \<open>catch\<close> clause catches every
  throw of the \<open>try\<close> block: the text \<open>null\<close> parses, the first property read throws
  TypeError, and the result is that of a malformed text; on a BreadcrumbList whose item is
  \<open>null\<close> the throw comes from \<open>validateBreadcrumbList\<close>, the error is the same, and neither
  the datatype nor the content-quality checks have run. With the item
  \<open>{"name":"Home"}\<close> instead, the same document gets its two description warnings.
\<close>

theorem valid_json_reported_as_invalid:
  "JSON_parse exampleRuntime (s_schema nullDocument) = Some JNull \<and>
   validateSchema exampleRuntime nullDocument =
     \<lparr>errors = [invalidJson], warnings = [], info = [], isValid = False, score = 80\<rparr> \<and>
   JSON_parse exampleRuntime (s_schema breadcrumbNullItem) =
     Some (JObj [(''@context'', JStr ''https://schema.org''), (''@type'', JStr ''BreadcrumbList''),
                 (''itemListElement'', JArr [JNull]), (''description'', JStr ''short'')]) \<and>
   map message (errors (validateSchema exampleRuntime breadcrumbNullItem)) =
     [''Invalid JSON syntax''] \<and>
   map message (warnings (validateSchema exampleRuntime breadcrumbNullItem)) =
     [''Missing @id property'', ''Missing recommended property: numberOfItems''] \<and>
   map message (errors (validateSchema exampleRuntime breadcrumbHome)) = [] \<and>
   map message (warnings (validateSchema exampleRuntime breadcrumbHome)) =
     [''Missing @id property'', ''Missing recommended property: numberOfItems'',
      ''Description is too short'', ''Description may be too short'']"
  by code_simp

section \<open>The requirement table entry and the mismatch warning\<close>

lemma appendsOnly_validateArticle: "appendsOnly otherMessage (validateArticle rt schema)"
  unfolding validateArticle_def
  by (intro appendsOnly_rules) (simp_all add: otherMessage_def finding_def headlineTooLong_def)

lemma appendsOnly_validateProduct: "appendsOnly otherMessage (validateProduct rt schema)"
  unfolding validateProduct_def
  by (intro appendsOnly_rules) (simp_all add: otherMessage_def finding_def)

lemma appendsOnly_validateOrganization: "appendsOnly otherMessage (validateOrganization rt schema)"
  unfolding validateOrganization_def
  by (intro appendsOnly_rules) (simp_all add: otherMessage_def finding_def)

lemma appendsOnly_validateEvent: "appendsOnly otherMessage (validateEvent rt schema)"
  unfolding validateEvent_def
  by (intro appendsOnly_rules) (simp_all add: otherMessage_def finding_def)

lemma appendsOnly_validateBreadcrumbList: "appendsOnly otherMessage (validateBreadcrumbList rt schema)"
  unfolding validateBreadcrumbList_def
  by (intro appendsOnly_rules) (simp_all add: otherMessage_def finding_def)

lemma appendsOnly_validateFAQPage: "appendsOnly otherMessage (validateFAQPage rt schema)"
  unfolding validateFAQPage_def
  by (intro appendsOnly_rules) (simp_all add: otherMessage_def finding_def)

lemma appendsOnly_validateHowTo: "appendsOnly otherMessage (validateHowTo rt schema)"
  unfolding validateHowTo_def
  by (intro appendsOnly_rules) (simp_all add: otherMessage_def finding_def)

lemma appendsOnly_validateReview: "appendsOnly otherMessage (validateReview rt schema)"
  unfolding validateReview_def
  by (intro appendsOnly_rules) (simp_all add: otherMessage_def finding_def reviewRatingIncomplete_def)

lemma appendsOnly_validateLocalBusiness: "appendsOnly otherMessage (validateLocalBusiness rt schema)"
  unfolding validateLocalBusiness_def
  by (intro appendsOnly_rules) (simp_all add: otherMessage_def finding_def)

lemma appendsOnly_validateSpecificTypes:
  "appendsOnly otherMessage (validateSpecificTypes rt schema t)"
  unfolding validateSpecificTypes_def
  by (simp add: appendsOnly_validateArticle appendsOnly_validateProduct
      appendsOnly_validateOrganization appendsOnly_validateEvent
      appendsOnly_validateBreadcrumbList appendsOnly_validateFAQPage appendsOnly_validateHowTo
      appendsOnly_validateReview appendsOnly_validateLocalBusiness appendsOnly_skip)

lemma getProp_defined:
  "getProp schema k = Some v \<Longrightarrow> \<exists>v'. getProp schema k' = Some v'"
  by (cases schema) simp_all

lemma forEachFrom_missing_errors:
  assumes "\<And>p. lacks schema p \<noteq> None"
  shows "forEachFrom i (\<lambda>prop index. ifThen (lacks schema prop) (pushError (g prop))) ps fs =
           Completed (fs\<lparr>errors := errors fs @ map g (filter (\<lambda>p. lacks schema p = Some True) ps)\<rparr>)"
proof (induction ps arbitrary: i fs)
  case Nil
  show ?case by simp
next
  case (Cons p ps)
  from assms [of p] obtain b where b: "lacks schema p = Some b" by blast
  show ?case
    using b Cons.IH by (cases b) (simp_all add: ifThen_def pushError_def)
qed

lemma forEachFrom_missing_warnings:
  assumes "\<And>p. lacks schema p \<noteq> None"
  shows "forEachFrom i (\<lambda>prop index. ifThen (lacks schema prop) (pushWarning (g prop))) ps fs =
           Completed (fs\<lparr>warnings := warnings fs @ map g (filter (\<lambda>p. lacks schema p = Some True) ps)\<rparr>)"
proof (induction ps arbitrary: i fs)
  case Nil
  show ?case by simp
next
  case (Cons p ps)
  from assms [of p] obtain b where b: "lacks schema p = Some b" by blast
  show ?case
    using b Cons.IH by (cases b) (simp_all add: ifThen_def pushWarning_def)
qed

lemma checkRequirements_result:
  assumes "\<And>p. lacks schema p \<noteq> None"
  shows "checkRequirements schema e fs =
     Completed (fs\<lparr>errors := errors fs @
                       map missingRequired (filter (\<lambda>p. lacks schema p = Some True) (required e)),
                   warnings := warnings fs @
                       map missingRecommended (filter (\<lambda>p. lacks schema p = Some True) (recommended e))\<rparr>)"
  unfolding checkRequirements_def forEach_def
  by (simp add: forEachFrom_missing_errors [OF assms] forEachFrom_missing_warnings [OF assms])

lemma missingRequired_inj: "missingRequired p = missingRequired q \<longleftrightarrow> p = q"
  by (auto simp: missingRequired_def finding_def)

lemma missingRecommended_inj: "missingRecommended p = missingRecommended q \<longleftrightarrow> p = q"
  by (auto simp: missingRecommended_def finding_def)

lemma missing_not_other:
  "\<not> otherMessage (missingRequired p)" "\<not> otherMessage (missingRecommended p)"
  by (simp_all add: otherMessage_def missingRequired_def missingRecommended_def finding_def)

lemma mismatch_facts:
  "isMismatchWarning (typeMismatch e g)"
  "\<not> isMismatchWarning (missingRecommended p)"
  "typeMismatch e g \<noteq> missingRecommended p"
  by (simp_all add: isMismatchWarning_def typeMismatch_def missingRecommended_def finding_def)

lemma other_not_mismatch:
  assumes "otherMessage f"
  shows "\<not> isMismatchWarning f"
proof
  assume "isMismatchWarning f"
  then have "take 20 (message f) = ''Schema type mismatch''"
    by (simp add: isMismatchWarning_def)
  then have "take 1 (take 20 (message f)) = ''S''"
    by simp
  then have "take 1 (message f) = ''S''"
    by (simp add: min_def)
  with assms show False by (simp add: otherMessage_def)
qed

lemma bindThen_Some: "bindThen (Some v) body = body v"
  by (rule ext) (simp add: bindThen_def)

lemma steps_three:
  assumes "c1 fs = Completed fs1" and "c2 fs1 = Completed fs2"
  shows "steps [c1, c2, c3] fs = c3 fs2"
  using assms by (simp split: outcome.splits)

lemma schemaOrg_run:
  assumes t: "getProp schema ''@type'' = Some t"
    and key: "js_toString rt t = Some key"
    and own: "key \<notin> set Object_prototype_names"
    and expected: "expectedType \<notin> set Object_prototype_names"
  shows "validateSchemaOrgStructure rt schema expectedType fs =
     validateSpecificTypes rt schema t
       (fs\<lparr>errors := errors fs @ missingErrors schema (resolvedEntry key expectedType),
           warnings := warnings fs @ mismatchWarnings t expectedType key @
                       missingWarnings schema (resolvedEntry key expectedType)\<rparr>)"
proof -
  let ?fs1 = "fs\<lparr>warnings := warnings fs @ mismatchWarnings t expectedType key\<rparr>"
  let ?fs2 = "fs\<lparr>errors := errors fs @ missingErrors schema (resolvedEntry key expectedType),
           warnings := warnings fs @ mismatchWarnings t expectedType key @
                       missingWarnings schema (resolvedEntry key expectedType)\<rparr>"
  let ?c1 = "ifThen (Some (truthy t \<and> \<not> strict_eq t (JStr expectedType)))
          (bindThen (js_toString rt t) (\<lambda>got. pushWarning (typeMismatch expectedType got)))"
  let ?c2 = "bindThen (js_toString rt t) (\<lambda>key.
          (case (case requirementsOf key of
                   Absent \<Rightarrow> requirementsOf expectedType
                 | Inherited \<Rightarrow> Inherited
                 | Entry e \<Rightarrow> Entry e) of
             Absent \<Rightarrow> skip
           | Inherited \<Rightarrow> Threw
           | Entry requirements \<Rightarrow> checkRequirements schema requirements))"
  have strict: "strict_eq t (JStr expectedType) \<longleftrightarrow> t = JStr expectedType"
    by (cases t) auto
  have defined: "\<And>p. lacks schema p \<noteq> None"
    using getProp_defined [OF t] by (fastforce simp: lacks_def)
  have step1: "?c1 fs = Completed ?fs1"
    by (simp add: ifThen_def bindThen_def key pushWarning_def mismatchWarnings_def strict)
  have table: "(case requirementsOf key of Absent \<Rightarrow> requirementsOf expectedType
                 | Inherited \<Rightarrow> Inherited | Entry e \<Rightarrow> Entry e) =
               (case resolvedEntry key expectedType of None \<Rightarrow> Absent | Some e \<Rightarrow> Entry e)"
    using own expected
    by (simp add: requirementsOf_def resolvedEntry_def split: option.splits)
  have step2: "?c2 ?fs1 = Completed ?fs2"
    unfolding bindThen_def key option.case table
    by (cases "resolvedEntry key expectedType")
      (simp_all add: skip_def missingErrors_def missingWarnings_def
        checkRequirements_result [OF defined])
  show ?thesis
    unfolding validateSchemaOrgStructure_def t bindThen_Some
    by (simp only: steps_three [of ?c1 fs ?fs1 ?c2 ?fs2, OF step1 step2])
qed

text \<open>
  C5, as the code has it. Let the document's \<open>@type\<close> convert to the string \<open>key\<close>, and let
  neither \<open>key\<close> nor the expected type be the name of a member of \<open>Object.prototype\<close>. Then
  what \<open>validateSchemaOrgStructure\<close> appends is such that: the "Missing required property"
  errors are exactly those of the required properties of the resolved entry that the
  document lacks, the "Missing recommended property" warnings exactly those of its
  recommended properties (none of either when neither type has an entry); and there is
  exactly one mismatch warning when the \<open>@type\<close> is truthy and differs from the expected
  type, and none otherwise.
\<close>

theorem requirements_resolution:
  assumes t: "getProp schema ''@type'' = Some t"
    and key: "js_toString rt t = Some key"
    and own: "key \<notin> set Object_prototype_names"
    and expected: "expectedType \<notin> set Object_prototype_names"
  shows "\<exists>es ws ns.
           findingsOf (validateSchemaOrgStructure rt schema expectedType fs) =
             \<lparr>errors = errors fs @ es, warnings = warnings fs @ ws, info = info fs @ ns\<rparr> \<and>
           (\<forall>p. missingRequired p \<in> set es \<longleftrightarrow>
                  (\<exists>e. resolvedEntry key expectedType = Some e \<and> p \<in> set (required e) \<and>
                       lacks schema p = Some True)) \<and>
           (\<forall>p. missingRecommended p \<in> set ws \<longleftrightarrow>
                  (\<exists>e. resolvedEntry key expectedType = Some e \<and> p \<in> set (recommended e) \<and>
                       lacks schema p = Some True)) \<and>
           length (filter isMismatchWarning ws) =
             (if truthy t \<and> t \<noteq> JStr expectedType then 1 else 0)"
proof -
  let ?entry = "resolvedEntry key expectedType"
  let ?es2 = "missingErrors schema ?entry"
  let ?ws1 = "mismatchWarnings t expectedType key"
  let ?ws2 = "missingWarnings schema ?entry"
  let ?fs2 = "fs\<lparr>errors := errors fs @ ?es2, warnings := warnings fs @ ?ws1 @ ?ws2\<rparr>"
  from appendsOnly_validateSpecificTypes [of rt schema t, unfolded appendsOnly_def, rule_format, of ?fs2]
  obtain es3 ws3 ns3 where
    fs3: "findingsOf (validateSpecificTypes rt schema t ?fs2) =
            \<lparr>errors = errors ?fs2 @ es3, warnings = warnings ?fs2 @ ws3, info = info ?fs2 @ ns3\<rparr>"
    and other: "list_all otherMessage es3" "list_all otherMessage ws3"
    unfolding extends_def by blast
  have shape: "findingsOf (validateSchemaOrgStructure rt schema expectedType fs) =
      \<lparr>errors = errors fs @ (?es2 @ es3), warnings = warnings fs @ (?ws1 @ ?ws2 @ ws3),
       info = info fs @ ns3\<rparr>"
    unfolding schemaOrg_run [OF assms] fs3 by simp
  have req: "missingRequired p \<in> set (?es2 @ es3) \<longleftrightarrow>
      (\<exists>e. ?entry = Some e \<and> p \<in> set (required e) \<and> lacks schema p = Some True)" for p
  proof -
    have "missingRequired p \<notin> set es3"
      using other(1) missing_not_other(1) [of p] by (auto simp: list_all_iff)
    moreover have "missingRequired p \<in> set ?es2 \<longleftrightarrow>
      (\<exists>e. ?entry = Some e \<and> p \<in> set (required e) \<and> lacks schema p = Some True)"
      by (cases ?entry) (auto simp: missingErrors_def missingRequired_inj)
    ultimately show ?thesis by simp
  qed
  have rec: "missingRecommended p \<in> set (?ws1 @ ?ws2 @ ws3) \<longleftrightarrow>
      (\<exists>e. ?entry = Some e \<and> p \<in> set (recommended e) \<and> lacks schema p = Some True)" for p
  proof -
    have "missingRecommended p \<notin> set ws3"
      using other(2) missing_not_other(2) [of p] by (auto simp: list_all_iff)
    moreover have "missingRecommended p \<notin> set ?ws1"
      using mismatch_facts(3) [of expectedType key p] by (auto simp: mismatchWarnings_def)
    moreover have "missingRecommended p \<in> set ?ws2 \<longleftrightarrow>
      (\<exists>e. ?entry = Some e \<and> p \<in> set (recommended e) \<and> lacks schema p = Some True)"
      by (cases ?entry) (auto simp: missingWarnings_def missingRecommended_inj)
    ultimately show ?thesis by simp
  qed
  have count: "length (filter isMismatchWarning (?ws1 @ ?ws2 @ ws3)) =
      (if truthy t \<and> t \<noteq> JStr expectedType then 1 else 0)"
  proof -
    have "filter isMismatchWarning ws3 = []"
      using other(2) other_not_mismatch by (auto simp: list_all_iff filter_empty_conv)
    moreover have "filter isMismatchWarning ?ws2 = []"
      by (cases ?entry) (auto simp: missingWarnings_def filter_empty_conv mismatch_facts(2))
    moreover have "length (filter isMismatchWarning ?ws1) =
        (if truthy t \<and> t \<noteq> JStr expectedType then 1 else 0)"
      by (simp add: mismatchWarnings_def mismatch_facts(1))
    ultimately show ?thesis by simp
  qed
  show ?thesis
    using shape req rec count by blast
qed

text \<open>A Product document validated as an Article: the entry of Product, and one mismatch warning.\<close>

theorem requirements_resolution_witness:
  "getProp (JObj [(''@type'', JStr ''Product'')]) ''@type'' = Some (JStr ''Product'') \<and>
   js_toString exampleRuntime (JStr ''Product'') = Some ''Product'' \<and>
   ''Product'' \<notin> set Object_prototype_names \<and>
   ''Article'' \<notin> set Object_prototype_names \<and>
   resolvedEntry ''Product'' ''Article'' = map_of SCHEMA_REQUIREMENTS ''Product'' \<and>
   (\<exists>es ws ns.
      findingsOf (validateSchemaOrgStructure exampleRuntime (JObj [(''@type'', JStr ''Product'')])
                    ''Article'' noFindings) =
        \<lparr>errors = errors noFindings @ es, warnings = warnings noFindings @ ws,
         info = info noFindings @ ns\<rparr> \<and>
      (\<forall>p. missingRequired p \<in> set es \<longleftrightarrow>
             (\<exists>e. resolvedEntry ''Product'' ''Article'' = Some e \<and> p \<in> set (required e) \<and>
                  lacks (JObj [(''@type'', JStr ''Product'')]) p = Some True)) \<and>
      (\<forall>p. missingRecommended p \<in> set ws \<longleftrightarrow>
             (\<exists>e. resolvedEntry ''Product'' ''Article'' = Some e \<and> p \<in> set (recommended e) \<and>
                  lacks (JObj [(''@type'', JStr ''Product'')]) p = Some True)) \<and>
      length (filter isMismatchWarning ws) =
        (if truthy (JStr ''Product'') \<and> JStr ''Product'' \<noteq> JStr ''Article'' then 1 else 0))"
proof -
  have h1: "getProp (JObj [(''@type'', JStr ''Product'')]) ''@type'' = Some (JStr ''Product'')"
    by simp
  have h2: "js_toString exampleRuntime (JStr ''Product'') = Some ''Product''"
    by simp
  have h3: "''Product'' \<notin> set Object_prototype_names"
    by (simp add: Object_prototype_names_def)
  have h4: "''Article'' \<notin> set Object_prototype_names"
    by (simp add: Object_prototype_names_def)
  have r: "resolvedEntry ''Product'' ''Article'' = map_of SCHEMA_REQUIREMENTS ''Product''"
    by (simp add: resolvedEntry_def SCHEMA_REQUIREMENTS_def)
  from requirements_resolution [OF h1 h2 h3 h4, of noFindings] h1 h2 h3 h4 r
  show ?thesis by blast
qed

text \<open>
  C5 as stated fails: in \<open>{"@type":""}\<close> validated as an Article the \<open>@type\<close> is present and
  differs from the expected type, and no mismatch warning is among the warnings.
\<close>

theorem empty_type_counterexample:
  "JSON_parse exampleRuntime (s_schema emptyType) = Some (JObj [(''@type'', JStr [])]) \<and>
   s_type emptyType = ''Article'' \<and>
   map message (warnings (validateSchema exampleRuntime emptyType)) =
     [''Missing @id property'', ''Missing recommended property: author'',
      ''Missing recommended property: datePublished'',
      ''Missing recommended property: dateModified'',
      ''Missing recommended property: publisher'',
      ''Missing recommended property: description'',
      ''Missing recommended property: image'', ''Empty value for property: @type'']"
  by code_simp

section \<open>Rating checks\<close>

lemma checkRatingValue_push:
  assumes "map_of rating ''ratingValue'' = Some v" and "truthy v"
    and "js_toNumber rt v = Some (Some r)" and "r < 1 \<or> 5 < r"
  shows "checkRatingValue rt (JObj rating) a =
           Completed (a\<lparr>warnings := warnings a @ [ratingValueWarning]\<rparr>)"
  using assms
  by (auto simp: checkRatingValue_def has_def ifThen_def andAlso_def orElse_def
      js_lt_def js_gt_def pushWarning_def)

lemma checkBestRating_push:
  assumes "map_of rating ''bestRating'' = Some b" and "truthy b" and "b \<noteq> JNum 5"
  shows "checkBestRating (JObj rating) a =
           Completed (a\<lparr>warnings := warnings a @ [bestRatingWarning]\<rparr>)"
proof -
  have "\<not> strict_eq b (JNum 5)"
    using assms(3) by (cases b) simp_all
  then show ?thesis
    using assms(1,2)
    by (simp add: checkBestRating_def has_def ifThen_def andAlso_def pushWarning_def)
qed

text \<open>
  C6, as the code has it. The two rating warnings are guarded by the truthiness of the
  value: for a document with an \<open>aggregateRating\<close> object on which \<open>validateDataTypes\<close>
  returns, a \<open>ratingValue\<close> that is truthy and whose number lies outside [1,5] gives the
  warning with path \<open>aggregateRating.ratingValue\<close>, and a \<open>bestRating\<close> that is truthy and
  not the number 5 gives the warning with path \<open>aggregateRating.bestRating\<close>.
\<close>

theorem aggregateRating_warnings:
  assumes "getProp schema ''aggregateRating'' = Some (JObj rating)"
    and "validateDataTypes rt schema fs = Completed fs'"
  shows "(\<forall>v r. map_of rating ''ratingValue'' = Some v \<and> truthy v \<and>
                 js_toNumber rt v = Some (Some r) \<and> (r < 1 \<or> 5 < r) \<longrightarrow>
            ratingValueWarning \<in> set (warnings fs')) \<and>
         (\<forall>b. map_of rating ''bestRating'' = Some b \<and> truthy b \<and> b \<noteq> JNum 5 \<longrightarrow>
            bestRatingWarning \<in> set (warnings fs')) \<and>
         type ratingValueWarning = Warning \<and>
         path ratingValueWarning = Some ''aggregateRating.ratingValue'' \<and>
         type bestRatingWarning = Warning \<and>
         path bestRatingWarning = Some ''aggregateRating.bestRating''"
proof -
  have mem: "checkRating rt schema \<in> set [checkUrlProperties rt schema, checkEmail rt schema,
      checkImageProperties rt schema, checkOffers rt schema, checkRating rt schema,
      checkPostalCode rt schema, checkSchemaContext rt schema]"
    by simp
  have ok: "\<And>d. d \<in> set [checkUrlProperties rt schema, checkEmail rt schema,
      checkImageProperties rt schema, checkOffers rt schema, checkRating rt schema,
      checkPostalCode rt schema, checkSchemaContext rt schema] \<Longrightarrow> appendsOnly (\<lambda>f. True) d"
    using appendsOnly_dataTypes_parts by auto
  from steps_run [OF assms(2) [unfolded validateDataTypes_def] mem ok]
  obtain a b where run: "checkRating rt schema a = Completed b"
    and after: "extends (\<lambda>f. True) b fs'"
    by blast
  have inner: "steps [checkRatingValue rt (JObj rating), checkBestRating (JObj rating)] a
      = Completed b"
    using run assms(1) by (simp add: checkRating_def has_def ifThen_def bindThen_def)
  have parts: "\<And>d. d \<in> set [checkRatingValue rt (JObj rating), checkBestRating (JObj rating)]
      \<Longrightarrow> appendsOnly (\<lambda>f. True) d"
    using appendsOnly_rating_parts by auto
  have first: "ratingValueWarning \<in> set (warnings fs')"
    if "map_of rating ''ratingValue'' = Some v" "truthy v"
      "js_toNumber rt v = Some (Some r)" "r < 1 \<or> 5 < r" for v r
  proof -
    have "checkRatingValue rt (JObj rating)
        \<in> set [checkRatingValue rt (JObj rating), checkBestRating (JObj rating)]"
      by simp
    from steps_run [OF inner this parts]
    obtain a1 b1 where "checkRatingValue rt (JObj rating) a1 = Completed b1"
      and "extends (\<lambda>f. True) b1 b"
      by blast
    then have "ratingValueWarning \<in> set (warnings b1)"
      using checkRatingValue_push [OF that, of a1] by auto
    then show ?thesis
      using \<open>extends (\<lambda>f. True) b1 b\<close> after extends_member_warnings by blast
  qed
  have second: "bestRatingWarning \<in> set (warnings fs')"
    if "map_of rating ''bestRating'' = Some v" "truthy v" "v \<noteq> JNum 5" for v
  proof -
    have "checkBestRating (JObj rating)
        \<in> set [checkRatingValue rt (JObj rating), checkBestRating (JObj rating)]"
      by simp
    from steps_run [OF inner this parts]
    obtain a1 b1 where "checkBestRating (JObj rating) a1 = Completed b1"
      and "extends (\<lambda>f. True) b1 b"
      by blast
    then have "bestRatingWarning \<in> set (warnings b1)"
      using checkBestRating_push [OF that, of a1] by auto
    then show ?thesis
      using \<open>extends (\<lambda>f. True) b1 b\<close> after extends_member_warnings by blast
  qed
  have "type ratingValueWarning = Warning"
    "path ratingValueWarning = Some ''aggregateRating.ratingValue''"
    "type bestRatingWarning = Warning"
    "path bestRatingWarning = Some ''aggregateRating.bestRating''"
    by (simp_all add: ratingValueWarning_def bestRatingWarning_def finding_def)
  with first second show ?thesis by blast
qed

text \<open>A rating of 7 out of 10: both warnings.\<close>

theorem aggregateRating_warnings_witness:
  "getProp outOfRangeRating ''aggregateRating'' =
     Some (JObj [(''ratingValue'', JNum 7), (''bestRating'', JNum 10)]) \<and>
   validateDataTypes exampleRuntime outOfRangeRating noFindings =
     Completed \<lparr>errors = [], warnings = [ratingValueWarning, bestRatingWarning], info = []\<rparr> \<and>
   ratingValueWarning
     \<in> set (warnings \<lparr>errors = [], warnings = [ratingValueWarning, bestRatingWarning], info = []\<rparr>) \<and>
   bestRatingWarning
     \<in> set (warnings \<lparr>errors = [], warnings = [ratingValueWarning, bestRatingWarning], info = []\<rparr>)"
proof -
  have h1: "getProp outOfRangeRating ''aggregateRating'' =
     Some (JObj [(''ratingValue'', JNum 7), (''bestRating'', JNum 10)])"
    by (simp add: outOfRangeRating_def)
  have h2: "validateDataTypes exampleRuntime outOfRangeRating noFindings =
     Completed \<lparr>errors = [], warnings = [ratingValueWarning, bestRatingWarning], info = []\<rparr>"
    by code_simp
  have v: "map_of [(''ratingValue'', JNum 7), (''bestRating'', JNum 10)] ''ratingValue''
        = Some (JNum 7) \<and> truthy (JNum 7) \<and>
      js_toNumber exampleRuntime (JNum 7) = Some (Some 7) \<and> ((7::rat) < 1 \<or> 5 < (7::rat))"
    by simp
  have b: "map_of [(''ratingValue'', JNum 7), (''bestRating'', JNum 10)] ''bestRating''
        = Some (JNum 10) \<and> truthy (JNum 10) \<and> JNum 10 \<noteq> JNum 5"
    by simp
  from aggregateRating_warnings [OF h1 h2] v b h1 h2 show ?thesis by blast
qed

text \<open>
  C6 as stated fails: a \<open>ratingValue\<close> of 0 is present and outside [1,5], a \<open>bestRating\<close>
  of 0 is present and not 5, and \<open>validateDataTypes\<close> adds no finding at all.
\<close>

theorem ratingValue_zero_counterexample:
  "getProp zeroRating ''aggregateRating'' =
     Some (JObj [(''ratingValue'', JNum 0), (''bestRating'', JNum 0)]) \<and>
   validateDataTypes exampleRuntime zeroRating noFindings = Completed noFindings"
  by code_simp

section \<open>Description and headline checks\<close>

lemma appendsOnly_contentQuality_parts:
  "appendsOnly (\<lambda>f. True) (checkEmptyStrings schema)"
  "appendsOnly (\<lambda>f. True) (checkDescriptionLength rt schema)"
  "appendsOnly (\<lambda>f. True) (checkNameLength rt schema)"
  "appendsOnly (\<lambda>f. True) (checkHeadlineLength rt schema t)"
  "appendsOnly (\<lambda>f. True) (checkDuplicateContent schema)"
  "appendsOnly (\<lambda>f. True) (checkPlaceholderContent schema)"
  "appendsOnly (\<lambda>f. True) (checkShortContent rt schema)"
  "appendsOnly (\<lambda>f. True) (checkRepeatedWords schema)"
  unfolding checkEmptyStrings_def checkDescriptionLength_def checkNameLength_def
    checkHeadlineLength_def checkDuplicateContent_def checkPlaceholderContent_def
    checkShortContent_def checkRepeatedWords_def
  by (intro appendsOnly_rules; simp)+

lemma contentQuality_run:
  assumes "validateContentQuality rt schema t fs = Completed fs'"
    and "c \<in> set [checkEmptyStrings schema, checkDescriptionLength rt schema,
                   checkNameLength rt schema, checkHeadlineLength rt schema t,
                   checkDuplicateContent schema, checkPlaceholderContent schema,
                   checkShortContent rt schema, checkRepeatedWords schema]"
  shows "\<exists>a b. c a = Completed b \<and> extends (\<lambda>f. True) b fs'"
proof -
  have ok: "\<And>d. d \<in> set [checkEmptyStrings schema, checkDescriptionLength rt schema,
                   checkNameLength rt schema, checkHeadlineLength rt schema t,
                   checkDuplicateContent schema, checkPlaceholderContent schema,
                   checkShortContent rt schema, checkRepeatedWords schema]
      \<Longrightarrow> appendsOnly (\<lambda>f. True) d"
    using appendsOnly_contentQuality_parts by auto
  from steps_run [OF assms(1) [unfolded validateContentQuality_def] assms(2) ok]
  show ?thesis by blast
qed

lemma checkDescriptionLength_string:
  assumes "getProp schema ''description'' = Some (JStr d)" and "d \<noteq> []"
  shows "checkDescriptionLength rt schema a =
     Completed (if length d < 50 then a\<lparr>warnings := warnings a @ [descriptionTooShort]\<rparr>
                else if 160 < length d then a\<lparr>warnings := warnings a @ [descriptionTooLong]\<rparr>
                else a)"
  using assms
  by (simp add: checkDescriptionLength_def has_def ifThen_def ifThenElse_def bindThen_def
      js_lt_def js_gt_def pushWarning_def)

lemma checkShortContent_string:
  assumes "getProp schema ''description'' = Some (JStr d)" and "d \<noteq> []"
  shows "checkShortContent rt schema a =
     Completed (if length d < 20 then a\<lparr>warnings := warnings a @ [descriptionMayBeTooShort]\<rparr>
                else a)"
  using assms
  by (simp add: checkShortContent_def has_def ifThen_def andAlso_def js_lt_def pushWarning_def)

text \<open>
  Whenever \<open>validateContentQuality\<close> returns, a description that is a non-empty string has
  the warnings its length calls for.
\<close>

lemma description_warnings_when_returned:
  assumes d: "getProp schema ''description'' = Some (JStr d)" "d \<noteq> []"
    and run: "validateContentQuality rt schema schemaType fs = Completed fs'"
  shows "(length d < 50 \<longrightarrow> descriptionTooShort \<in> set (warnings fs')) \<and>
         (length d < 20 \<longrightarrow> descriptionMayBeTooShort \<in> set (warnings fs')) \<and>
         (160 < length d \<longrightarrow> descriptionTooLong \<in> set (warnings fs'))"
proof -
  from contentQuality_run [OF run, of "checkDescriptionLength rt schema"]
  obtain a b where 1: "checkDescriptionLength rt schema a = Completed b"
    and 2: "extends (\<lambda>f. True) b fs'"
    by auto
  from contentQuality_run [OF run, of "checkShortContent rt schema"]
  obtain a' b' where 3: "checkShortContent rt schema a' = Completed b'"
    and 4: "extends (\<lambda>f. True) b' fs'"
    by auto
  have "length d < 50 \<Longrightarrow> descriptionTooShort \<in> set (warnings b)"
    using 1 checkDescriptionLength_string [OF d, of rt a] by auto
  moreover have "160 < length d \<Longrightarrow> descriptionTooLong \<in> set (warnings b)"
    using 1 checkDescriptionLength_string [OF d, of rt a] by auto
  moreover have "length d < 20 \<Longrightarrow> descriptionMayBeTooShort \<in> set (warnings b')"
    using 3 checkShortContent_string [OF d, of rt a'] by auto
  ultimately show ?thesis
    using 2 4 extends_member_warnings by blast
qed

text \<open>
  C7. The two warnings for a short description are claimed for every document whose
  description is a non-empty string. On the BreadcrumbList whose item is \<open>null\<close> the
  description is \<open>short\<close> and neither warning is in the result, because the throw in
  \<open>validateBreadcrumbList\<close> ended the \<open>try\<close> block before \<open>validateContentQuality\<close>; and in
  \<open>validateContentQuality\<close> itself the comparison \<open>schema.name.length > 100\<close> throws on a
  length that has no primitive value, after the first warning and before the second.
\<close>

theorem description_warnings_not_reached:
  "JSON_parse exampleRuntime (s_schema breadcrumbNullItem) =
     Some (JObj [(''@context'', JStr ''https://schema.org''), (''@type'', JStr ''BreadcrumbList''),
                 (''itemListElement'', JArr [JNull]), (''description'', JStr ''short'')]) \<and>
   map message (warnings (validateSchema exampleRuntime breadcrumbNullItem)) =
     [''Missing @id property'', ''Missing recommended property: numberOfItems''] \<and>
   getProp unconvertibleName ''description'' = Some (JStr ''short'') \<and>
   validateContentQuality exampleRuntime unconvertibleName ''Article'' noFindings =
     Threw \<lparr>errors = [], warnings = [descriptionTooShort], info = []\<rparr>"
  by code_simp

lemma extends_headlineWarnings:
  assumes "extends notHeadline fs fs'"
  shows "headlineWarnings fs' = headlineWarnings fs"
proof -
  from assms obtain ws where "warnings fs' = warnings fs @ ws" and "list_all notHeadline ws"
    unfolding extends_def by auto
  then show ?thesis
    by (simp add: headlineWarnings_def list_all_iff filter_empty_conv)
qed

lemma adds_nothing: "appendsOnly notHeadline c \<Longrightarrow> adds c []"
  unfolding adds_def appendsOnly_def
  by (metis append_Nil2 extends_headlineWarnings findingsOf.simps(1))

lemma adds_steps_Nil: "adds (steps []) []"
  by (simp add: adds_def)

lemma adds_steps_Cons:
  assumes "adds c xs" and "adds (steps cs) ys"
  shows "adds (steps (c # cs)) (xs @ ys)"
  unfolding adds_def
proof (intro allI impI)
  fix fs fs'
  assume run: "steps (c # cs) fs = Completed fs'"
  then obtain fs1 where 1: "c fs = Completed fs1" and 2: "steps cs fs1 = Completed fs'"
    by (cases "c fs") simp_all
  show "headlineWarnings fs' = headlineWarnings fs @ xs @ ys"
    using assms 1 2 unfolding adds_def by fastforce
qed

lemma adds_steps_skip:
  "appendsOnly notHeadline c \<Longrightarrow> adds (steps cs) ys \<Longrightarrow> adds (steps (c # cs)) ys"
  using adds_steps_Cons [OF adds_nothing, of c cs ys] by simp

lemma adds_steps_one:
  "adds c [x] \<Longrightarrow> adds (steps cs) ys \<Longrightarrow> adds (steps (c # cs)) (x # ys)"
  using adds_steps_Cons [of c "[x]" cs ys] by simp

lemma notHeadline_finding:
  "c \<noteq> CHR ''H'' \<Longrightarrow> notHeadline (finding t (c # cs) p s)"
  by (simp add: notHeadline_def finding_def)

lemma headline_is_headline:
  "\<not> notHeadline headlineTooLong" "\<not> notHeadline headlineTooLongForSEO"
  by (simp_all add: notHeadline_def headlineTooLong_def headlineTooLongForSEO_def finding_def)

lemma adds_push: "\<not> notHeadline w \<Longrightarrow> adds (pushWarning w) [w]"
  by (auto simp: adds_def pushWarning_def headlineWarnings_def)

lemma long_headline:
  assumes "getProp schema ''headline'' = Some (JStr h)" and "110 < length h"
  shows "andAlso (has schema ''headline'')
           (getProp schema ''headline'' \<bind> (\<lambda>h. getProp h ''length'')
              \<bind> (\<lambda>l. js_gt rt l 110)) = Some True"
  using assms by (auto simp: andAlso_def has_def js_gt_def)

lemma ifThen_True: "ifThen (Some True) body = body"
  by (rule ext) (simp add: ifThen_def)

lemma adds_validateArticle:
  assumes "getProp schema ''headline'' = Some (JStr h)" and "110 < length h"
  shows "adds (validateArticle rt schema) [headlineTooLong]"
  unfolding validateArticle_def long_headline [OF assms] ifThen_True
  apply (rule adds_steps_one)
   apply (rule adds_push [OF headline_is_headline(1)])
  apply (rule adds_steps_skip)
   apply (intro appendsOnly_rules; simp add: notHeadline_def finding_def)
  apply (rule adds_steps_skip)
   apply (intro appendsOnly_rules; simp add: notHeadline_def finding_def)
  apply (rule adds_steps_skip)
   apply (intro appendsOnly_rules; simp add: notHeadline_def finding_def)
  apply (rule adds_steps_Nil)
  done

lemma notHeadline_named:
  "notHeadline (missingRequired p)" "notHeadline (missingRecommended p)"
  "notHeadline (typeMismatch e g)" "notHeadline ratingValueWarning"
  "notHeadline bestRatingWarning" "notHeadline (emptyValue k)"
  "notHeadline descriptionTooShort" "notHeadline descriptionTooLong"
  "notHeadline descriptionMayBeTooShort"
  by (simp_all add: notHeadline_def finding_def missingRequired_def missingRecommended_def
      typeMismatch_def ratingValueWarning_def bestRatingWarning_def emptyValue_def
      descriptionTooShort_def descriptionTooLong_def descriptionMayBeTooShort_def)

lemma notHeadline_validateJsonLdStructure: "appendsOnly notHeadline (validateJsonLdStructure schema)"
  unfolding validateJsonLdStructure_def
  by (intro appendsOnly_rules; simp add: notHeadline_def finding_def)

lemma notHeadline_checkRequirements: "appendsOnly notHeadline (checkRequirements schema e)"
  unfolding checkRequirements_def
  by (intro appendsOnly_rules; simp add: notHeadline_named)

lemma notHeadline_dataTypes_parts:
  "appendsOnly notHeadline (checkUrlProperties rt schema)"
  "appendsOnly notHeadline (checkEmail rt schema)"
  "appendsOnly notHeadline (checkImageProperties rt schema)"
  "appendsOnly notHeadline (checkOffers rt schema)"
  "appendsOnly notHeadline (checkRating rt schema)"
  "appendsOnly notHeadline (checkPostalCode rt schema)"
  "appendsOnly notHeadline (checkSchemaContext rt schema)"
  unfolding checkUrlProperties_def checkEmail_def checkImageProperties_def checkOffers_def
    checkRating_def checkRatingValue_def checkBestRating_def checkPostalCode_def
    checkSchemaContext_def
  by (intro appendsOnly_rules; simp add: notHeadline_named notHeadline_finding)+

lemma notHeadline_validateDataTypes: "appendsOnly notHeadline (validateDataTypes rt schema)"
  unfolding validateDataTypes_def
  by (intro appendsOnly_rules notHeadline_dataTypes_parts)

lemma notHeadline_contentQuality_parts:
  "appendsOnly notHeadline (checkEmptyStrings schema)"
  "appendsOnly notHeadline (checkDescriptionLength rt schema)"
  "appendsOnly notHeadline (checkNameLength rt schema)"
  "appendsOnly notHeadline (checkDuplicateContent schema)"
  "appendsOnly notHeadline (checkPlaceholderContent schema)"
  "appendsOnly notHeadline (checkShortContent rt schema)"
  "appendsOnly notHeadline (checkRepeatedWords schema)"
  unfolding checkEmptyStrings_def checkDescriptionLength_def checkNameLength_def
    checkDuplicateContent_def checkPlaceholderContent_def
    checkShortContent_def checkRepeatedWords_def
  by (intro appendsOnly_rules; simp add: notHeadline_named notHeadline_finding)+

lemma adds_validateContentQuality:
  assumes "getProp schema ''headline'' = Some (JStr h)" and "110 < length h"
  shows "adds (validateContentQuality rt schema ''Article'') [headlineTooLongForSEO]"
proof -
  have "checkHeadlineLength rt schema ''Article'' = pushWarning headlineTooLongForSEO"
    unfolding checkHeadlineLength_def
    using long_headline [OF assms, of rt] by (simp add: andAlso_def ifThen_True)
  then have h: "adds (checkHeadlineLength rt schema ''Article'') [headlineTooLongForSEO]"
    by (simp add: adds_push headline_is_headline(2))
  show ?thesis
    unfolding validateContentQuality_def
    by (intro adds_steps_skip notHeadline_contentQuality_parts adds_steps_one h adds_steps_Nil)
qed

lemma adds_bindThen: "(\<And>v. adds (body v) xs) \<Longrightarrow> adds (bindThen e body) xs"
  unfolding adds_def bindThen_def by (auto split: option.splits)

lemma adds_validateSchemaOrgStructure:
  assumes "getProp schema ''@type'' = Some (JStr ''Article'')"
    and "getProp schema ''headline'' = Some (JStr h)" and "110 < length h"
  shows "adds (validateSchemaOrgStructure rt schema expectedType) [headlineTooLong]"
proof -
  have specific: "adds (validateSpecificTypes rt schema (JStr ''Article'')) [headlineTooLong]"
    using adds_validateArticle [OF assms(2,3)] by (simp add: validateSpecificTypes_def)
  have table: "appendsOnly notHeadline
      (case (case requirementsOf key of Absent \<Rightarrow> requirementsOf expectedType
             | Inherited \<Rightarrow> Inherited | Entry e \<Rightarrow> Entry e) of
         Absent \<Rightarrow> skip | Inherited \<Rightarrow> Threw
       | Entry requirements \<Rightarrow> checkRequirements schema requirements)" for key
    by (auto split: table_value.splits
        intro: appendsOnly_skip appendsOnly_Threw notHeadline_checkRequirements)
  have last: "adds (steps [validateSpecificTypes rt schema (JStr ''Article'')]) [headlineTooLong]"
    using adds_steps_one [OF specific adds_steps_Nil] .
  show ?thesis
    unfolding validateSchemaOrgStructure_def assms(1) bindThen_Some
    by (intro adds_steps_skip last appendsOnly_rules table) (simp_all add: notHeadline_named)
qed

text \<open>
  Whenever the \<open>try\<close> block of \<open>validateSchema\<close> completes on an Article with a headline
  longer than 110 characters, the warnings of the result whose message starts with "H" are
  the two headline warnings, one from \<open>validateArticle\<close> and one from
  \<open>validateContentQuality\<close>.
\<close>

lemma headline_warnings_when_completed:
  assumes "JSON_parse rt (s_schema schemaObj) = Some doc"
    and "s_type schemaObj = ''Article''"
    and "getProp doc ''@type'' = Some (JStr ''Article'')"
    and "getProp doc ''headline'' = Some (JStr h)" and "110 < length h"
    and "tryBlock rt schemaObj = Completed fs"
  shows "filter (\<lambda>f. take 1 (message f) = ''H'') (warnings (validateSchema rt schemaObj))
           = [headlineTooLong, headlineTooLongForSEO]"
proof -
  have "adds (steps [validateJsonLdStructure doc,
                     validateSchemaOrgStructure rt doc ''Article'',
                     validateDataTypes rt doc,
                     validateContentQuality rt doc ''Article''])
             [headlineTooLong, headlineTooLongForSEO]"
    by (intro adds_steps_skip adds_steps_one adds_steps_Nil
        notHeadline_validateJsonLdStructure notHeadline_validateDataTypes
        adds_validateSchemaOrgStructure [OF assms(3,4,5)]
        adds_validateContentQuality [OF assms(4,5)])
  moreover have "steps [validateJsonLdStructure doc,
                     validateSchemaOrgStructure rt doc ''Article'',
                     validateDataTypes rt doc,
                     validateContentQuality rt doc ''Article''] noFindings = Completed fs"
    using assms(1,2,6) by (simp add: tryBlock_def)
  ultimately have "headlineWarnings fs = [headlineTooLong, headlineTooLongForSEO]"
    unfolding adds_def by (fastforce simp: headlineWarnings_def noFindings_def)
  then show ?thesis
    using assms(6)
    by (simp add: validateSchema_def Let_def headlineWarnings_def notHeadline_def)
qed

text \<open>
  C8. Two headline warnings are claimed for every Article whose headline is longer than
  110 characters. With \<open>"offers":[null]\<close> beside a headline of 111 characters, the read of
  \<open>offer.price\<close> throws in \<open>validateDataTypes\<close>, the content-quality check of the headline
  does not run, and the result has the warning of \<open>validateArticle\<close> only; without the
  offers the same document has both.
\<close>

theorem headline_warning_not_duplicated:
  "length longHeadline = 111 \<and>
   map message (errors (validateSchema exampleRuntime articleNullOffer)) =
     [''Invalid JSON syntax''] \<and>
   map message (warnings (validateSchema exampleRuntime articleNullOffer)) =
     [''Missing @id property'', ''Missing recommended property: author'',
      ''Missing recommended property: datePublished'',
      ''Missing recommended property: dateModified'',
      ''Missing recommended property: publisher'',
      ''Missing recommended property: description'',
      ''Missing recommended property: image'', ''Headline is too long''] \<and>
   map message (errors (validateSchema exampleRuntime articleLongHeadline)) = [] \<and>
   map message (warnings (validateSchema exampleRuntime articleLongHeadline)) =
     [''Missing @id property'', ''Missing recommended property: author'',
      ''Missing recommended property: datePublished'',
      ''Missing recommended property: dateModified'',
      ''Missing recommended property: publisher'',
      ''Missing recommended property: description'',
      ''Missing recommended property: image'', ''Headline is too long'',
      ''Headline is too long for optimal SEO'']"
  by code_simp

section \<open>Batch checks\<close>

lemma foldl_appropriateness_warnings:
  "set (warnings fs)
     \<subseteq> set (warnings (foldl (\<lambda>fs s. findingsOf (appropriateness rt s fs)) fs schemas))"
proof (induction schemas arbitrary: fs)
  case Nil
  show ?case by simp
next
  case (Cons s schemas)
  have "set (warnings fs) \<subseteq> set (warnings (findingsOf (appropriateness rt s fs)))"
    using appendsOnly_appropriateness [of rt s, unfolded appendsOnly_def, rule_format, of fs]
    by (rule extends_warnings)
  also have "\<dots> \<subseteq> set (warnings (foldl (\<lambda>fs s. findingsOf (appropriateness rt s fs))
                 (findingsOf (appropriateness rt s fs)) schemas))"
    by (rule Cons.IH)
  finally show ?case by simp
qed

lemma foldl_conflictStep_mono:
  "set (warnings fs) \<subseteq> set (warnings (foldl (conflictStep schemaTypes) fs ps))"
proof (induction ps arbitrary: fs)
  case Nil
  show ?case by simp
next
  case (Cons p ps)
  have "set (warnings fs) \<subseteq> set (warnings (conflictStep schemaTypes fs p))"
    by (auto simp: conflictStep_def split: prod.splits)
  also have "\<dots> \<subseteq> set (warnings (foldl (conflictStep schemaTypes)
                 (conflictStep schemaTypes fs p) ps))"
    by (rule Cons.IH)
  finally show ?case by simp
qed

lemma foldl_conflictStep_member:
  assumes "(type1, type2) \<in> set ps" and "type1 \<in> set schemaTypes" and "type2 \<in> set schemaTypes"
  shows "conflictWarning type1 type2
           \<in> set (warnings (foldl (conflictStep schemaTypes) fs ps))"
  using assms(1)
proof (induction ps arbitrary: fs)
  case Nil
  then show ?case by simp
next
  case (Cons q ps)
  show ?case
  proof (cases "(type1, type2) = q")
    case True
    have "conflictWarning type1 type2 \<in> set (warnings (conflictStep schemaTypes fs q))"
      using True [symmetric] assms(2,3) by (simp add: conflictStep_def)
    then show ?thesis
      using foldl_conflictStep_mono [of "conflictStep schemaTypes fs q" schemaTypes ps] by auto
  next
    case False
    with Cons.prems have "(type1, type2) \<in> set ps" by auto
    then show ?thesis using Cons.IH by simp
  qed
qed

lemma essentialSchemas_warnings: "warnings (essentialSchemas schemaTypes fs) = warnings fs"
  by (simp add: essentialSchemas_def Let_def)

lemma schemaCountCheck_warnings: "set (warnings fs) \<subseteq> set (warnings (schemaCountCheck n fs))"
  by (auto simp: schemaCountCheck_def)

lemma table_pair_warning:
  assumes "(type1, type2) \<in> set conflictingPairs"
    and "type1 \<in> set (map s_type schemas)" and "type2 \<in> set (map s_type schemas)"
  shows "conflictWarning type1 type2 \<in> set (warnings (validateSchemasForSEO rt schemas))"
proof -
  let ?w = "conflictWarning type1 type2"
  have "?w \<in> set (warnings (validateSchemaRelationships rt schemas fs0))" for fs0
  proof -
    have "?w \<in> set (warnings (essentialSchemas (map s_type schemas)
                  (conflictingSchemas (map s_type schemas) fs0)))"
      using foldl_conflictStep_member [OF assms]
      by (simp add: essentialSchemas_warnings conflictingSchemas_def)
    then show ?thesis
      unfolding validateSchemaRelationships_def Let_def
      using foldl_appropriateness_warnings schemaCountCheck_warnings by blast
  qed
  then show ?thesis
    by (simp add: validateSchemasForSEO_def Let_def)
qed

text \<open>The table of the model holds the five pairs of the specification.\<close>

lemma five_pairs_in_table:
  assumes "(type1, type2) \<in> {(''Recipe'', ''HowTo''), (''Product'', ''Recipe''),
                              (''Event'', ''Article''), (''FAQPage'', ''Article''),
                              (''Review'', ''Article'')}"
  shows "(type1, type2) \<in> set conflictingPairs"
  using assms unfolding conflictingPairs_def by simp

text \<open>
  C9. When the declared types of a batch include both types of one of the five pairs
  Recipe/HowTo, Product/Recipe, Event/Article, FAQPage/Article, Review/Article, the
  warnings of \<open>validateSchemasForSEO\<close> include a warning whose message names the two types.
\<close>

theorem conflicting_pair_warning:
  assumes "(type1, type2) \<in> {(''Recipe'', ''HowTo''), (''Product'', ''Recipe''),
                              (''Event'', ''Article''), (''FAQPage'', ''Article''),
                              (''Review'', ''Article'')}"
    and "type1 \<in> set (map s_type schemas)" and "type2 \<in> set (map s_type schemas)"
  shows "conflictWarning type1 type2 \<in> set (warnings (validateSchemasForSEO rt schemas)) \<and>
         type (conflictWarning type1 type2) = Warning \<and>
         message (conflictWarning type1 type2) =
           ''Potential conflict between '' @ type1 @ '' and '' @ type2 @ '' schemas''"
proof -
  have "conflictWarning type1 type2 \<in> set (warnings (validateSchemasForSEO rt schemas))"
    using table_pair_warning [OF five_pairs_in_table [OF assms(1)] assms(2,3)] .
  moreover have "type (conflictWarning type1 type2) = Warning"
    by (simp add: conflictWarning_def finding_def)
  moreover have "message (conflictWarning type1 type2) =
      ''Potential conflict between '' @ type1 @ '' and '' @ type2 @ '' schemas''"
    by (simp add: conflictWarning_def finding_def)
  ultimately show ?thesis by blast
qed

text \<open>A batch of one Article and one FAQPage.\<close>

theorem conflicting_pair_warning_witness:
  "(''FAQPage'', ''Article'') \<in> {(''Recipe'', ''HowTo''), (''Product'', ''Recipe''),
                                  (''Event'', ''Article''), (''FAQPage'', ''Article''),
                                  (''Review'', ''Article'')} \<and>
   ''FAQPage'' \<in> set (map s_type articleAndFaq) \<and>
   ''Article'' \<in> set (map s_type articleAndFaq) \<and>
   conflictWarning ''FAQPage'' ''Article''
     \<in> set (warnings (validateSchemasForSEO exampleRuntime articleAndFaq)) \<and>
   message (conflictWarning ''FAQPage'' ''Article'') =
     ''Potential conflict between FAQPage and Article schemas''"
proof -
  have a: "(''FAQPage'', ''Article'') \<in> {(''Recipe'', ''HowTo''), (''Product'', ''Recipe''),
                                  (''Event'', ''Article''), (''FAQPage'', ''Article''),
                                  (''Review'', ''Article'')}"
    by simp
  have b: "''FAQPage'' \<in> set (map s_type articleAndFaq)"
    by (simp add: articleAndFaq_def)
  have c: "''Article'' \<in> set (map s_type articleAndFaq)"
    by (simp add: articleAndFaq_def)
  show ?thesis
    using a b c conflicting_pair_warning [OF a b c, of exampleRuntime] by simp
qed

section \<open>Truthiness\<close>

lemma forEachFrom_member:
  assumes "forEachFrom i f xs a = Completed b" and "x \<in> set xs"
    and push: "\<And>j fs. f x j fs = Completed (fs\<lparr>warnings := warnings fs @ [w]\<rparr>)"
    and ok: "\<And>y j. appendsOnly (\<lambda>f. True) (f y j)"
  shows "w \<in> set (warnings b)"
  using assms(1,2)
proof (induction xs arbitrary: i a)
  case Nil
  then show ?case by simp
next
  case (Cons y ys)
  from Cons.prems(1) obtain a1 where y: "f y i a = Completed a1"
    and rest: "forEachFrom (Suc i) f ys a1 = Completed b"
    by (cases "f y i a") simp_all
  show ?case
  proof (cases "x = y")
    case True
    then have "w \<in> set (warnings a1)"
      using y push [of i a] by auto
    moreover have "extends (\<lambda>f. True) a1 b"
      using appendsOnly_forEachFrom [of "\<lambda>f. True" f "Suc i" ys, OF ok] rest
      unfolding appendsOnly_def by (metis findingsOf.simps(1))
    ultimately show ?thesis by (rule extends_member_warnings [rotated])
  next
    case False
    with Cons.prems(2) have "x \<in> set ys" by simp
    from Cons.IH [OF rest this] show ?thesis .
  qed
qed

lemma checkEmptyStrings_member:
  assumes "map_of kvs p = Some (JStr s)" and "trimsToEmpty s"
    and "checkEmptyStrings (JObj kvs) a = Completed b"
  shows "emptyValue p \<in> set (warnings b)"
proof -
  let ?f = "\<lambda>key (index::nat).
          ifThen (map_option (\<lambda>v. case v of JStr str \<Rightarrow> trimsToEmpty str | _ \<Rightarrow> False)
                    (getProp (JObj kvs) key))
            (pushWarning (emptyValue key))"
  have run: "forEachFrom 0 ?f (map fst kvs) a = Completed b"
    using assms(3) by (simp add: checkEmptyStrings_def bindThen_def forEach_def)
  have mem: "p \<in> set (map fst kvs)"
    using assms(1) by (metis map_of_eq_None_iff option.distinct(1) set_map)
  have push: "\<And>j fs. ?f p j fs = Completed (fs\<lparr>warnings := warnings fs @ [emptyValue p]\<rparr>)"
    using assms(1,2) by (simp add: ifThen_def pushWarning_def)
  have ok: "\<And>y j. appendsOnly (\<lambda>f. True) (?f y j)"
    by (intro appendsOnly_rules) simp
  from forEachFrom_member [of 0 ?f "map fst kvs" a b p "emptyValue p", OF run mem push ok]
  show ?thesis .
qed

lemma tryBlock_steps:
  assumes "JSON_parse rt (s_schema schemaObj) = Some doc"
  shows "tryBlock rt schemaObj =
     steps [validateJsonLdStructure doc,
            validateSchemaOrgStructure rt doc (s_type schemaObj),
            validateDataTypes rt doc,
            validateContentQuality rt doc (s_type schemaObj)] noFindings"
  using assms by (simp add: tryBlock_def)

lemma appendsOnly_validateJsonLdStructure:
  "appendsOnly (\<lambda>f. True) (validateJsonLdStructure schema)"
  unfolding validateJsonLdStructure_def
  by (intro appendsOnly_rules; simp)

lemma extends_weaken:
  assumes "extends P a b" and "\<And>f. P f \<Longrightarrow> Q f"
  shows "extends Q a b"
  using assms unfolding extends_def list_all_iff by blast

lemma appendsOnly_weaken:
  assumes "appendsOnly P c" and "\<And>f. P f \<Longrightarrow> Q f"
  shows "appendsOnly Q c"
  using assms unfolding appendsOnly_def extends_def list_all_iff by blast

lemma appendsOnly_validateSchemaOrgStructure:
  "appendsOnly (\<lambda>f. True) (validateSchemaOrgStructure rt schema expectedType)"
proof -
  have "appendsOnly (\<lambda>f. True) (validateSpecificTypes rt schema t)" for t
    using appendsOnly_validateSpecificTypes by (rule appendsOnly_weaken) simp
  moreover have "appendsOnly (\<lambda>f. True) (checkRequirements schema e)" for e
    unfolding checkRequirements_def by (intro appendsOnly_rules; simp)
  ultimately show ?thesis
    unfolding validateSchemaOrgStructure_def
    by (intro appendsOnly_rules; simp split: table_value.splits add: appendsOnly_skip appendsOnly_Threw)
qed

lemma appendsOnly_validateDataTypes: "appendsOnly (\<lambda>f. True) (validateDataTypes rt schema)"
  unfolding validateDataTypes_def
  by (intro appendsOnly_rules appendsOnly_dataTypes_parts)

lemma appendsOnly_validateContentQuality:
  "appendsOnly (\<lambda>f. True) (validateContentQuality rt schema t)"
  unfolding validateContentQuality_def
  by (intro appendsOnly_rules appendsOnly_contentQuality_parts)

lemma tryBlock_run:
  assumes "JSON_parse rt (s_schema schemaObj) = Some doc"
    and "tryBlock rt schemaObj = Completed fs"
    and "c \<in> set [validateJsonLdStructure doc,
                   validateSchemaOrgStructure rt doc (s_type schemaObj),
                   validateDataTypes rt doc,
                   validateContentQuality rt doc (s_type schemaObj)]"
  shows "\<exists>a b. c a = Completed b \<and> extends (\<lambda>f. True) b fs"
proof -
  have ok: "\<And>d. d \<in> set [validateJsonLdStructure doc,
                   validateSchemaOrgStructure rt doc (s_type schemaObj),
                   validateDataTypes rt doc,
                   validateContentQuality rt doc (s_type schemaObj)]
      \<Longrightarrow> appendsOnly (\<lambda>f. True) d"
    using appendsOnly_validateJsonLdStructure appendsOnly_validateSchemaOrgStructure
      appendsOnly_validateDataTypes appendsOnly_validateContentQuality by auto
  from steps_run [OF assms(2) [unfolded tryBlock_steps [OF assms(1)]] assms(3) ok]
  show ?thesis by blast
qed

lemma validateSchema_completed:
  assumes "tryBlock rt schemaObj = Completed fs"
  shows "errors (validateSchema rt schemaObj) = errors fs"
    and "warnings (validateSchema rt schemaObj) = warnings fs"
  using assms by (simp_all add: validateSchema_def Let_def)

text \<open>
  A required property of the resolved entry bound to a falsy value gives the error
  "Missing required property" as soon as \<open>validateSchemaOrgStructure\<close> runs; bound to the
  empty string it also gives the warning "Empty value for property" whenever the \<open>try\<close>
  block of \<open>validateSchema\<close> completes.
\<close>

lemma required_falsy_error:
  assumes "getProp schema ''@type'' = Some t" and "js_toString rt t = Some key"
    and "key \<notin> set Object_prototype_names" and "expectedType \<notin> set Object_prototype_names"
    and "resolvedEntry key expectedType = Some e" and "p \<in> set (required e)"
    and "getProp schema p = Some v" and "\<not> truthy v"
  shows "missingRequired p
           \<in> set (errors (findingsOf (validateSchemaOrgStructure rt schema expectedType fs)))"
proof -
  have "missingRequired p \<in> set (missingErrors schema (resolvedEntry key expectedType))"
    using assms(5-8) by (simp add: missingErrors_def lacks_def)
  moreover have "extends (\<lambda>f. True)
      (fs\<lparr>errors := errors fs @ missingErrors schema (resolvedEntry key expectedType),
           warnings := warnings fs @ mismatchWarnings t expectedType key @
                       missingWarnings schema (resolvedEntry key expectedType)\<rparr>)
      (findingsOf (validateSchemaOrgStructure rt schema expectedType fs))"
    unfolding schemaOrg_run [OF assms(1-4)]
    using appendsOnly_weaken [OF appendsOnly_validateSpecificTypes, of "\<lambda>f. True" rt schema t]
    unfolding appendsOnly_def by simp
  ultimately show ?thesis
    using extends_errors by fastforce
qed

lemma required_empty_string_when_completed:
  assumes parse: "JSON_parse rt (s_schema schemaObj) = Some (JObj kvs)"
    and t: "getProp (JObj kvs) ''@type'' = Some t" and key: "js_toString rt t = Some key"
    and names: "key \<notin> set Object_prototype_names" "s_type schemaObj \<notin> set Object_prototype_names"
    and entry: "resolvedEntry key (s_type schemaObj) = Some e" "p \<in> set (required e)"
    and empty: "map_of kvs p = Some (JStr [])"
    and run: "tryBlock rt schemaObj = Completed fs"
  shows "missingRequired p \<in> set (errors (validateSchema rt schemaObj)) \<and>
         emptyValue p \<in> set (warnings (validateSchema rt schemaObj))"
proof -
  from tryBlock_run [OF parse run, of "validateSchemaOrgStructure rt (JObj kvs) (s_type schemaObj)"]
  obtain a b where s: "validateSchemaOrgStructure rt (JObj kvs) (s_type schemaObj) a = Completed b"
    and sb: "extends (\<lambda>f. True) b fs"
    by auto
  have "missingRequired p \<in> set (errors b)"
    using required_falsy_error [OF t key names entry, of "JStr []" a] empty s by simp
  then have err: "missingRequired p \<in> set (errors fs)"
    using sb extends_errors by blast
  from tryBlock_run [OF parse run, of "validateContentQuality rt (JObj kvs) (s_type schemaObj)"]
  obtain a' b' where q: "validateContentQuality rt (JObj kvs) (s_type schemaObj) a' = Completed b'"
    and qb: "extends (\<lambda>f. True) b' fs"
    by auto
  from contentQuality_run [OF q, of "checkEmptyStrings (JObj kvs)"]
  obtain a'' b'' where e: "checkEmptyStrings (JObj kvs) a'' = Completed b''"
    and eb: "extends (\<lambda>f. True) b'' b'"
    by auto
  have "emptyValue p \<in> set (warnings b'')"
    using checkEmptyStrings_member [OF empty _ e] by (simp add: trimsToEmpty_def)
  then have "emptyValue p \<in> set (warnings fs)"
    using eb qb extends_member_warnings by blast
  with err show ?thesis
    by (simp add: validateSchema_completed [OF run])
qed

text \<open>A Review whose \<open>reviewRating\<close> has a falsy \<open>ratingValue\<close> or \<open>bestRating\<close>, such as 0.\<close>

lemma review_rating_falsy:
  assumes "getProp schema ''@type'' = Some (JStr ''Review'')"
    and "expectedType \<notin> set Object_prototype_names"
    and "getProp schema ''reviewRating'' = Some (JObj rating)"
    and "lacks (JObj rating) ''ratingValue'' = Some True \<or>
         lacks (JObj rating) ''bestRating'' = Some True"
  shows "reviewRatingIncomplete
           \<in> set (errors (findingsOf (validateSchemaOrgStructure rt schema expectedType fs)))"
proof -
  have names: "''Review'' \<notin> set Object_prototype_names"
    by (simp add: Object_prototype_names_def)
  have cond: "orElse (lacks (JObj rating) ''ratingValue'') (lacks (JObj rating) ''bestRating'')
      = Some True"
    using assms(4) by (auto simp: orElse_def lacks_def)
  have "validateReview rt schema a = Completed (a\<lparr>errors := errors a @ [reviewRatingIncomplete]\<rparr>)"
    for a
    unfolding validateReview_def
    using assms(3) cond by (simp add: has_def ifThen_def pushError_def)
  moreover have key: "js_toString rt (JStr ''Review'') = Some ''Review''"
    by simp
  ultimately show ?thesis
    unfolding schemaOrg_run [OF assms(1) key names assms(2)]
    by (simp add: validateSpecificTypes_def)
qed

text \<open>
  C10. For a required property bound to the empty string, \<open>validateSchema\<close> is claimed to
  give both the error "Missing required property" and the warning "Empty value for
  property". On the BreadcrumbList with \<open>"@context":""\<close> whose item is \<open>null\<close>, the error is
  there and the warning is not: the throw in \<open>validateBreadcrumbList\<close> ended the \<open>try\<close>
  block before \<open>validateContentQuality\<close>. With the item \<open>{"name":"Home"}\<close> both are there.
\<close>

theorem empty_value_warning_not_reached:
  "JSON_parse exampleRuntime (s_schema emptyContextNullItem) =
     Some (JObj [(''@context'', JStr []), (''@type'', JStr ''BreadcrumbList''),
                 (''itemListElement'', JArr [JNull])]) \<and>
   map message (errors (validateSchema exampleRuntime emptyContextNullItem)) =
     [''Missing @context property'', ''Missing required property: @context'',
      ''Invalid JSON syntax''] \<and>
   map message (warnings (validateSchema exampleRuntime emptyContextNullItem)) =
     [''Missing @id property'', ''Missing recommended property: numberOfItems''] \<and>
   map message (errors (validateSchema exampleRuntime emptyContextHome)) =
     [''Missing @context property'', ''Missing required property: @context''] \<and>
   map message (warnings (validateSchema exampleRuntime emptyContextHome)) =
     [''Missing @id property'', ''Missing recommended property: numberOfItems'',
      ''Empty value for property: @context'']"
  by code_simp

end
